theory Spec2Isabelle
  imports Main "HOL-Library.Word" "HOL-Library.Multiset" "HOL-Library.Sublist"
begin

unbundle bit_operations_syntax

section \<open>Go's standard library, as far as the program calls it\<close>

text \<open>
  The program parses address literals with \<^verbatim>\<open>net.ParseIP\<close> and \<^verbatim>\<open>net.ParseCIDR\<close>, narrows
  them with \<^verbatim>\<open>IP.To4\<close>, builds masks with \<^verbatim>\<open>net.CIDRMask\<close>, parses route parameters with
  \<^verbatim>\<open>strconv.ParseUint\<close> and prints numbers with \<^verbatim>\<open>%d\<close>. These functions belong to Go's
  library (package \<^verbatim>\<open>net\<close>, which in the releases the program builds with parses through
  \<^verbatim>\<open>netip.ParseAddr\<close>), not to the repository; they are written out here, following the
  library's algorithms, so that the program's own functions can be evaluated on concrete
  literals.

  A \<^verbatim>\<open>net.IP\<close> or \<^verbatim>\<open>net.IPMask\<close> is a byte slice. Go's \<^verbatim>\<open>nil\<close> slice is the empty list: none
  of the functions below returns an empty slice that is not \<^verbatim>\<open>nil\<close>.
\<close>

type_synonym byte = "8 word"
type_synonym IP = "byte list"
type_synonym IPMask = "byte list"

definition isDigit :: "char \<Rightarrow> bool" where
  "isDigit c = (48 \<le> (of_char c :: nat) \<and> (of_char c :: nat) \<le> 57)"

definition digitVal :: "char \<Rightarrow> nat" where
  "digitVal c = of_char c - 48"

definition isHex :: "char \<Rightarrow> bool" where
  "isHex c = (isDigit c \<or> (97 \<le> (of_char c :: nat) \<and> (of_char c :: nat) \<le> 102)
               \<or> (65 \<le> (of_char c :: nat) \<and> (of_char c :: nat) \<le> 70))"

definition hexVal :: "char \<Rightarrow> nat" where
  "hexVal c = (if isDigit c then of_char c - 48
               else if 97 \<le> (of_char c :: nat) then of_char c - 87
               else of_char c - 55)"

text \<open>
  \<^verbatim>\<open>netip.parseIPv4\<close>: one pass over the characters with the value and digit count of the
  current field; \<open>first\<close> is \<^verbatim>\<open>i == 0\<close>, \<open>prevDot\<close> is \<^verbatim>\<open>s[i-1] == '.'\<close>, the fields
  completed so far are \<open>fields\<close> (\<^verbatim>\<open>pos\<close> is their number). A field with a leading zero, a
  value above 255, an empty field, a fifth field or any other character is an error.
\<close>

fun parseIPv4_loop ::
  "string \<Rightarrow> bool \<Rightarrow> bool \<Rightarrow> nat \<Rightarrow> nat \<Rightarrow> byte list \<Rightarrow> byte list option" where
  "parseIPv4_loop [] first prevDot val digLen fields =
     (if length fields < 3 then None else Some (fields @ [of_nat val]))"
| "parseIPv4_loop (c # cs) first prevDot val digLen fields =
     (if isDigit c then
        (if digLen = 1 \<and> val = 0 then None
         else let val' = val * 10 + digitVal c in
           if val' > 255 then None
           else parseIPv4_loop cs False False val' (digLen + 1) fields)
      else if c = CHR ''.'' then
        (if first \<or> cs = [] \<or> prevDot then None
         else if length fields = 3 then None
         else parseIPv4_loop cs False True 0 0 (fields @ [of_nat val]))
      else None)"

definition parseIPv4 :: "string \<Rightarrow> byte list option" where
  "parseIPv4 s = parseIPv4_loop s True False 0 0 []"

text \<open>
  \<^verbatim>\<open>netip.parseIPv6\<close>, the loop \<^verbatim>\<open>for i < 16\<close>: \<open>ip\<close> holds the \<^verbatim>\<open>i\<close> bytes written so far,
  \<open>ellipsis\<close> the position of \<^verbatim>\<open>::\<close> if one was seen. Each round reads one group of one to
  four hexadecimal digits; a group followed by a dot starts the embedded IPv4 tail. The
  result is the rest of the string, the bytes and the ellipsis when the loop is left by
  \<^verbatim>\<open>break\<close> or by its condition, \<open>None\<close> when it returns an error.
\<close>

function parseIPv6_loop ::
  "string \<Rightarrow> byte list \<Rightarrow> nat option \<Rightarrow> (string \<times> byte list \<times> nat option) option" where
  "parseIPv6_loop s ip ellipsis =
     (if 16 \<le> length ip then Some (s, ip, ellipsis)
      else
        let run = takeWhile isHex s;
            off = length run;
            acc = foldl (\<lambda>a c. a * 16 + hexVal c) 0 run
        in
        if 4 < off then None
        else if off = 0 then None
        else if off < length s \<and> s ! off = CHR ''.'' then
          (if ellipsis = None \<and> length ip \<noteq> 12 then None
           else if 16 < length ip + 4 then None
           else (case parseIPv4 s of
                   None \<Rightarrow> None
                 | Some v4 \<Rightarrow> Some ([], ip @ v4, ellipsis)))
        else
          let ip' = ip @ [of_nat (acc div 256), of_nat acc];
              s1 = drop off s
          in
          if s1 = [] then Some ([], ip', ellipsis)
          else if hd s1 \<noteq> CHR '':'' then None
          else if length s1 = 1 then None
          else
            let s2 = tl s1 in
            if hd s2 = CHR '':'' then
              (if ellipsis \<noteq> None then None
               else if tl s2 = [] then Some ([], ip', Some (length ip'))
               else parseIPv6_loop (tl s2) ip' (Some (length ip')))
            else parseIPv6_loop s2 ip' ellipsis)"
  by pat_completeness auto
termination
  by (relation "measure (\<lambda>(s, ip, e). 16 - length ip)") auto

declare parseIPv6_loop.simps [simp del]

text \<open>
  The whole of \<^verbatim>\<open>parseIPv6\<close>. \<^verbatim>\<open>net.ParseIP\<close> and \<^verbatim>\<open>net.ParseCIDR\<close> reject every address
  that carries a zone, and \<^verbatim>\<open>parseIPv6\<close> itself rejects an empty zone, so a literal with a
  \<^verbatim>\<open>%\<close> is rejected here at once.
\<close>

definition parseIPv6 :: "string \<Rightarrow> byte list option" where
  "parseIPv6 inp =
     (if CHR ''%'' \<in> set inp then None
      else
        let lead = (2 \<le> length inp \<and> inp ! 0 = CHR '':'' \<and> inp ! 1 = CHR '':'');
            s = (if lead then drop 2 inp else inp);
            ellipsis = (if lead then Some 0 else None)
        in
        if lead \<and> s = [] then Some (replicate 16 0)
        else (case parseIPv6_loop s [] ellipsis of
                None \<Rightarrow> None
              | Some (rest, ip, e) \<Rightarrow>
                  if rest \<noteq> [] then None
                  else if length ip < 16 then
                    (case e of
                       None \<Rightarrow> None
                     | Some k \<Rightarrow> Some (take k ip @ replicate (16 - length ip) 0 @ drop k ip))
                  else if e \<noteq> None then None
                  else Some ip))"

datatype Addr = Addr4 "byte list" | Addr6 "byte list"

text \<open>\<^verbatim>\<open>netip.ParseAddr\<close>: the first dot, colon or percent sign decides the parser.\<close>

definition ParseAddr :: "string \<Rightarrow> Addr option" where
  "ParseAddr s =
     (case find (\<lambda>c. c = CHR ''.'' \<or> c = CHR '':'' \<or> c = CHR ''%'') s of
        None \<Rightarrow> None
      | Some c \<Rightarrow>
          if c = CHR ''.'' then map_option Addr4 (parseIPv4 s)
          else if c = CHR '':'' then map_option Addr6 (parseIPv6 s)
          else None)"

definition v4InV6Prefix :: "byte list" where
  "v4InV6Prefix = [0, 0, 0, 0, 0, 0, 0, 0, 0, 0, 255, 255]"

fun As16 :: "Addr \<Rightarrow> byte list" where
  "As16 (Addr4 b) = v4InV6Prefix @ b"
| "As16 (Addr6 b) = b"

fun BitLen :: "Addr \<Rightarrow> nat" where
  "BitLen (Addr4 b) = 32"
| "BitLen (Addr6 b) = 128"

text \<open>\<^verbatim>\<open>net.ParseIP\<close>: the 16-byte form of the address, \<^verbatim>\<open>nil\<close> when the text is no address.\<close>

definition ParseIP :: "string \<Rightarrow> IP" where
  "ParseIP s = (case ParseAddr s of None \<Rightarrow> [] | Some a \<Rightarrow> As16 a)"

text \<open>\<^verbatim>\<open>IP.To4\<close>: the four bytes of an IPv4 address, \<^verbatim>\<open>nil\<close> for anything else.\<close>

definition To4 :: "IP \<Rightarrow> IP" where
  "To4 ip =
     (if length ip = 4 then ip
      else if length ip = 16 \<and> take 10 ip = replicate 10 0 \<and> ip ! 10 = 255 \<and> ip ! 11 = 255
        then drop 12 ip
      else [])"

text \<open>\<^verbatim>\<open>net.CIDRMask\<close>; \<open>ones\<close> is never negative where the program calls it.\<close>

fun CIDRMask_loop :: "nat \<Rightarrow> nat \<Rightarrow> byte list" where
  "CIDRMask_loop 0 n = []"
| "CIDRMask_loop (Suc l) n =
     (if 8 \<le> n then 255 # CIDRMask_loop l (n - 8)
      else NOT (drop_bit n (255 :: byte)) # CIDRMask_loop l 0)"

definition CIDRMask :: "nat \<Rightarrow> nat \<Rightarrow> IPMask" where
  "CIDRMask ones bits =
     (if bits \<noteq> 32 \<and> bits \<noteq> 128 then []
      else if bits < ones then []
      else CIDRMask_loop (bits div 8) ones)"

text \<open>\<^verbatim>\<open>IP.Mask\<close>.\<close>

definition IP_Mask :: "IP \<Rightarrow> IPMask \<Rightarrow> IP" where
  "IP_Mask ip0 mask0 =
     (let mask = (if length mask0 = 16 \<and> length ip0 = 4 \<and> take 12 mask0 = replicate 12 255
                  then drop 12 mask0 else mask0);
          ip = (if length mask = 4 \<and> length ip0 = 16 \<and> take 12 ip0 = v4InV6Prefix
                then drop 12 ip0 else ip0)
      in if length ip \<noteq> length mask then []
         else map (\<lambda>(a, m). a AND m) (zip ip mask))"

record IPNet =
  IPNet_IP :: IP
  IPNet_Mask :: IPMask

text \<open>
  \<^verbatim>\<open>IPMask.Size\<close> through \<^verbatim>\<open>simpleMaskLength\<close>: full bytes, then the leading one bits of the
  first other byte, and nothing but zero bits after them; \<open>None\<close> is the library's \<^verbatim>\<open>-1\<close>.
  The inner loop \<^verbatim>\<open>for v&0x80 != 0 { n++; v <<= 1 }\<close> ends after eight rounds at the latest.
\<close>

fun leadingOnes :: "nat \<Rightarrow> byte \<Rightarrow> nat \<Rightarrow> nat \<times> byte" where
  "leadingOnes 0 v n = (n, v)"
| "leadingOnes (Suc k) v n =
     (if v AND 128 \<noteq> 0 then leadingOnes k (push_bit 1 v) (n + 1) else (n, v))"

fun simpleMaskLength :: "IPMask \<Rightarrow> nat option" where
  "simpleMaskLength [] = Some 0"
| "simpleMaskLength (v # rest) =
     (if v = 255 then map_option (\<lambda>n. 8 + n) (simpleMaskLength rest)
      else case leadingOnes 8 v 0 of
             (n, v') \<Rightarrow> if v' \<noteq> 0 then None
                        else if list_ex (\<lambda>b. b \<noteq> 0) rest then None
                        else Some n)"

definition Size :: "IPMask \<Rightarrow> nat \<times> nat" where
  "Size m = (case simpleMaskLength m of None \<Rightarrow> (0, 0) | Some n \<Rightarrow> (n, length m * 8))"

text \<open>
  \<^verbatim>\<open>dtoi\<close>, the decimal prefix of a string: the value and the number of characters read,
  \<open>None\<close> when there is no digit or the value reaches \<^verbatim>\<open>0xFFFFFF\<close>.
\<close>

fun dtoi_loop :: "string \<Rightarrow> nat \<Rightarrow> nat \<Rightarrow> (nat \<times> nat) option" where
  "dtoi_loop [] n i = Some (n, i)"
| "dtoi_loop (c # cs) n i =
     (if isDigit c then
        (let n' = n * 10 + digitVal c in
         if 16777215 \<le> n' then None else dtoi_loop cs n' (i + 1))
      else Some (n, i))"

definition dtoi :: "string \<Rightarrow> (nat \<times> nat) option" where
  "dtoi s = (case dtoi_loop s 0 0 of
               None \<Rightarrow> None
             | Some (n, i) \<Rightarrow> if i = 0 then None else Some (n, i))"

text \<open>
  \<^verbatim>\<open>net.ParseCIDR\<close>: the text before the first slash is the address, the text after it the
  prefix length, at most the address's bit length. The result is the address and the
  network (address masked, and mask); \<open>None\<close> is the error.
\<close>

definition ParseCIDR :: "string \<Rightarrow> (IP \<times> IPNet) option" where
  "ParseCIDR s =
     (if CHR ''/'' \<notin> set s then None
      else
        let addr = takeWhile (\<lambda>c. c \<noteq> CHR ''/'') s;
            mask = tl (dropWhile (\<lambda>c. c \<noteq> CHR ''/'') s)
        in
        case ParseAddr addr of
          None \<Rightarrow> None
        | Some ipAddr \<Rightarrow>
            (case dtoi mask of
               None \<Rightarrow> None
             | Some (n, i) \<Rightarrow>
                 if i \<noteq> length mask \<or> BitLen ipAddr < n then None
                 else
                   let m = CIDRMask n (BitLen ipAddr) in
                   Some (As16 ipAddr, \<lparr>IPNet_IP = IP_Mask (As16 ipAddr) m, IPNet_Mask = m\<rparr>)))"

text \<open>
  \<^verbatim>\<open>strconv.ParseUint(s, 10, 32)\<close>: a non-empty string of decimal digits whose value fits 32
  bits; \<open>None\<close> is the error.
\<close>

definition ParseUint32 :: "string \<Rightarrow> nat option" where
  "ParseUint32 s =
     (if s = [] \<or> \<not> list_all isDigit s then None
      else let n = foldl (\<lambda>a c. a * 10 + digitVal c) 0 s in
           if n < 4294967296 then Some n else None)"

text \<open>The verb \<^verbatim>\<open>%d\<close> of \<^verbatim>\<open>fmt.Sprintf\<close> on a number that is not negative.\<close>

fun decimal :: "nat \<Rightarrow> nat \<Rightarrow> string" where
  "decimal 0 n = []"
| "decimal (Suc k) n =
     (if n < 10 then [char_of (48 + n)]
      else decimal k (n div 10) @ [char_of (48 + n mod 10)])"

definition Sprintf_d :: "nat \<Rightarrow> string" where
  "Sprintf_d n = decimal (Suc n) n"

section \<open>The data model (internal/models)\<close>

text \<open>
  \<^verbatim>\<open>gorm.Model\<close> is embedded in every entity. Its \<^verbatim>\<open>DeletedAt\<close> makes every GORM delete a
  soft delete: the row stays and is marked, and GORM's queries skip marked rows. The mark is
  a flag here; \<^verbatim>\<open>CreatedAt\<close> and \<^verbatim>\<open>UpdatedAt\<close> are left out, no function of the program reads
  them. Timestamps that the program sets are natural numbers.
\<close>

record Model =
  ID :: nat
  DeletedAt :: bool

record Address = Model +
  BackendID :: nat
  IP :: string
  Port :: int
  Available :: bool
  LastChecked :: nat

text \<open>
  \<^verbatim>\<open>Backend\<close> and \<^verbatim>\<open>BackendSet\<close> name each other in their association fields
  (\<^verbatim>\<open>Backend.BackendSets\<close>, \<^verbatim>\<open>BackendSet.Backends\<close>). The records \<open>Backend\<close> and \<open>BackendSet\<close>
  are the columns of the two structs, which is what a row of their tables holds and what
  \<^verbatim>\<open>First\<close> without a preload reads. \<open>BackendStruct\<close> and \<open>BackendSetStruct\<close> are the
  structs whole, the columns together with the structs in the association fields
  (\<^verbatim>\<open>Addresses\<close>, \<^verbatim>\<open>BackendSets\<close>, \<^verbatim>\<open>Backends\<close>), as a request body binds them, nested to any
  depth. A \<^verbatim>\<open>nil\<close> slice and an empty one are both the empty list.
\<close>

record Backend = Model +
  Name :: string
  Description :: string

record BackendSet = Model +
  Name :: string
  Description :: string

datatype BackendStruct =
  BackendStruct (Backend_row: Backend) (Addresses: "Address list")
    (BackendSets: "BackendSetStruct list")
and BackendSetStruct =
  BackendSetStruct (BackendSet_row: BackendSet) (Backends: "BackendStruct list")

record SourceDefinition = Model +
  Name :: string
  Description :: string
  Type :: string
  IPAddress :: string
  Subnet :: string
  RangeStart :: string
  RangeEnd :: string

text \<open>A \<^verbatim>\<open>Rule\<close> carries the two structs it belongs to.\<close>

record Rule = Model +
  SourceDefinitionID :: nat
  SourceDefinition :: SourceDefinition
  DestinationPort :: int
  Protocol :: string
  BackendSetID :: nat
  BackendSet :: BackendSetStruct
  Priority :: int
  Enabled :: bool

record ConfigChange = Model +
  ChangeType :: string
  EntityType :: string
  EntityID :: nat
  Description :: string
  ChangedBy :: string

record AvailabilityLog = Model +
  AddressID :: nat
  Available :: bool
  CheckTime :: nat
  CheckError :: string

text \<open>The zero values of the two structs a rule carries.\<close>

definition zeroSourceDefinition :: SourceDefinition where
  "zeroSourceDefinition =
     \<lparr>ID = 0, DeletedAt = False, Name = [], Description = [], Type = [], IPAddress = [],
      Subnet = [], RangeStart = [], RangeEnd = []\<rparr>"

definition zeroBackendSet :: BackendSetStruct where
  "zeroBackendSet =
     BackendSetStruct \<lparr>ID = 0, DeletedAt = False, BackendSet.Name = [], Description = []\<rparr> []"

text \<open>\<^verbatim>\<open>CompareIPs\<close>: bytewise, unsigned; a proper prefix is smaller.\<close>

fun CompareIPs :: "IP \<Rightarrow> IP \<Rightarrow> int" where
  "CompareIPs [] ip2 = (if ip2 \<noteq> [] then - 1 else 0)"
| "CompareIPs (a # ip1) [] = 1"
| "CompareIPs (a # ip1) (b # ip2) =
     (if a < b then - 1 else if b < a then 1 else CompareIPs ip1 ip2)"

definition Validate :: "SourceDefinition \<Rightarrow> bool" where
  "Validate s =
     (if Type s = ''ip'' then ParseIP (IPAddress s) \<noteq> []
      else if Type s = ''subnet'' then ParseCIDR (Subnet s) \<noteq> None
      else if Type s = ''range'' then
        (let start = ParseIP (RangeStart s);
             end = ParseIP (RangeEnd s)
         in start \<noteq> [] \<and> end \<noteq> [] \<and> CompareIPs start end \<le> 0)
      else False)"

section \<open>The rule compiler (internal/nftables)\<close>

text \<open>The expressions of \<^verbatim>\<open>github.com/google/nftables/expr\<close> that the compiler builds.\<close>

datatype MetaKey = MetaKeyL4PROTO
datatype CmpOp = CmpOpEq
datatype PayloadBase = PayloadBaseNetworkHeader | PayloadBaseTransportHeader
datatype NATType = NATTypeDestNAT

datatype expr =
    Meta MetaKey nat  \<comment> \<open>Key, Register\<close>
  | Cmp CmpOp nat "byte list"  \<comment> \<open>Op, Register, Data\<close>
  | Payload nat PayloadBase nat nat  \<comment> \<open>DestRegister, Base, Offset, Len\<close>
  | Bitwise nat nat nat "byte list" "byte list"
      \<comment> \<open>SourceRegister, DestRegister, Len, Mask, Xor\<close>
  | RangeExpr CmpOp nat "byte list" "byte list"
      \<comment> \<open>\<^verbatim>\<open>expr.Range\<close>: Op, Register, FromData, ToData\<close>
  | Immediate nat "byte list"  \<comment> \<open>Register, Data\<close>
  | NAT NATType nat nat nat  \<comment> \<open>Type, Family, RegAddrMin, RegProtoMin\<close>

record nft_Rule =
  Exprs :: "expr list"
  UserData :: string

text \<open>
  Errors are values. \<^verbatim>\<open>fmt.Errorf\<close> carries its text, a driver error the text the database
  gave, and a panic of the runtime its message; \<^verbatim>\<open>gorm.ErrRecordNotFound\<close> and
  \<^verbatim>\<open>gorm.ErrPrimaryKeyRequired\<close> are GORM's own.
\<close>

datatype error =
  ErrRecordNotFound | ErrPrimaryKeyRequired | ErrDriver string | Errorf string | Panic string

definition byteOrder :: "16 word \<Rightarrow> byte list" where
  "byteOrder port = [ucast (drop_bit 8 port), ucast port]"

text \<open>
  The \<^verbatim>\<open>switch rule.Protocol\<close> of \<^verbatim>\<open>generateExpressionsForRule\<close>: the protocol number, or
  \<open>None\<close> for its \<^verbatim>\<open>default\<close> branch.
\<close>

definition protoNum :: "string \<Rightarrow> byte option" where
  "protoNum p = (if p = ''tcp'' then Some 6 else if p = ''udp'' then Some 17 else None)"

text \<open>
  The \<^verbatim>\<open>switch rule.SourceDefinition.Type\<close> of \<^verbatim>\<open>generateExpressionsForRule\<close>: the
  expressions it appends, or the error it returns. The switch has no \<^verbatim>\<open>default\<close> branch: any
  other type appends nothing.
\<close>

definition sourceExpressions :: "SourceDefinition \<Rightarrow> error + expr list" where
  "sourceExpressions sd =
     (if Type sd = ''ip'' then
        (let ip = ParseIP (IPAddress sd) in
         if ip = [] then Inl (Errorf (''invalid IP address: '' @ IPAddress sd))
         else
           let ip4 = To4 ip in
           if ip4 = [] then Inl (Errorf (''not an IPv4 address: '' @ IPAddress sd))
           else Inr [Payload 1 PayloadBaseNetworkHeader 12 4, Cmp CmpOpEq 1 ip4])
      else if Type sd = ''subnet'' then
        (case ParseCIDR (Subnet sd) of
           None \<Rightarrow>
             Inl (Errorf (''invalid subnet: '' @ Subnet sd @ '', error: invalid CIDR address: ''
                          @ Subnet sd))
         | Some (ip, ipnet) \<Rightarrow>
             let ones = fst (Size (IPNet_Mask ipnet));
                 mask = CIDRMask ones 32
             in Inr [Payload 1 PayloadBaseNetworkHeader 12 4,
                     Bitwise 1 1 4 mask [0, 0, 0, 0],
                     Cmp CmpOpEq 1 (To4 (IPNet_IP ipnet))])
      else if Type sd = ''range'' then
        (let startIP = To4 (ParseIP (RangeStart sd));
             endIP = To4 (ParseIP (RangeEnd sd))
         in
         if startIP = [] \<or> endIP = [] then
           Inl (Errorf (''invalid IP range: '' @ RangeStart sd @ '' - '' @ RangeEnd sd))
         else Inr [Payload 1 PayloadBaseNetworkHeader 12 4, RangeExpr CmpOpEq 1 startIP endIP])
      else Inr [])"

text \<open>
  The generator \<^verbatim>\<open>m.rng\<close> is the sequence of numbers it will produce and the position in
  it: \<^verbatim>\<open>Intn(n)\<close> at position \<open>k\<close> yields \<open>rng k mod n\<close> and moves to \<open>k + 1\<close>, and panics
  for \<open>n = 0\<close>. The conversion \<^verbatim>\<open>uint16(port)\<close> of an \<^verbatim>\<open>int\<close> keeps its low 16 bits.
\<close>

type_synonym Rand = "nat \<Rightarrow> nat"

definition generateExpressionsForRule ::
  "Rand \<Rightarrow> nat \<Rightarrow> Rule \<Rightarrow> Address list \<Rightarrow> (error + expr list) \<times> nat" where
  "generateExpressionsForRule rng k rule addresses =
     (case protoNum (Protocol rule) of
        None \<Rightarrow> (Inl (Errorf (''unsupported protocol: '' @ Protocol rule)), k)
      | Some p \<Rightarrow>
          let expressions = [Meta MetaKeyL4PROTO 1, Cmp CmpOpEq 1 [p]];
              expressions = expressions @
                [Payload 1 PayloadBaseTransportHeader 2 2,
                 Cmp CmpOpEq 1 (byteOrder (word_of_int (DestinationPort rule)))]
          in
          case sourceExpressions (SourceDefinition rule) of
            Inl err \<Rightarrow> (Inl err, k)
          | Inr src \<Rightarrow>
              let expressions = expressions @ src in
              if addresses = [] then (Inl (Panic ''invalid argument to Intn''), k)
              else
                let selectedAddress = addresses ! (rng k mod length addresses);
                    destIP = To4 (ParseIP (IP selectedAddress))
                in
                if destIP = [] then
                  (Inl (Errorf (''invalid backend IP address: '' @ IP selectedAddress)), k + 1)
                else
                  (Inr (expressions @
                     [Immediate 1 destIP,
                      Immediate 2 (byteOrder (word_of_int (Port selectedAddress))),
                      NAT NATTypeDestNAT 2 1 2]),
                   k + 1))"

text \<open>
  \<^verbatim>\<open>ApplyRules\<close>: after \<^verbatim>\<open>conn.FlushChain\<close>, the loop over the rules; the result is the list
  of rules handed to \<^verbatim>\<open>conn.AddRule\<close>, in that order, which \<^verbatim>\<open>conn.Flush\<close> then sends to the
  kernel as one batch. A key missing from the Go map reads as the \<^verbatim>\<open>nil\<close> slice.
\<close>

fun ApplyRules :: "Rand \<Rightarrow> nat \<Rightarrow> Rule list \<Rightarrow> (nat \<rightharpoonup> Address list) \<Rightarrow> nft_Rule list" where
  "ApplyRules rng k [] addresses = []"
| "ApplyRules rng k (rule # rules) addresses =
     (let backendAddresses = (case addresses (BackendSetID rule) of None \<Rightarrow> [] | Some as \<Rightarrow> as)
      in
      if length backendAddresses = 0 then ApplyRules rng k rules addresses
      else
        case generateExpressionsForRule rng k rule backendAddresses of
          (Inl err, k') \<Rightarrow> ApplyRules rng k' rules addresses
        | (Inr expressions, k') \<Rightarrow>
            \<lparr>Exprs = expressions, UserData = ''rule_id:'' @ Sprintf_d (ID rule)\<rparr>
              # ApplyRules rng k' rules addresses)"

section \<open>The store (internal/database)\<close>

text \<open>
  The database is the list of rows of each table, in the order the rows were inserted.
  \<^verbatim>\<open>backend_set_backends\<close> is the join table of the many-to-many association, a pair of a
  backend set's id and a backend's id per row. A row of \<^verbatim>\<open>rules\<close> is kept as the struct it
  was written from; the two structs a rule carries are no columns, and no query reads
  them from the row (every query that returns rules preloads them).
\<close>

record DB =
  backends :: "Backend list"
  addresses :: "Address list"
  backend_sets :: "BackendSet list"
  backend_set_backends :: "(nat \<times> nat) list"
  source_definitions :: "SourceDefinition list"
  rules :: "Rule list"
  config_changes :: "ConfigChange list"
  availability_logs :: "AvailabilityLog list"

text \<open>
  What the database does with a statement is not the program's: a statement can fail
  (a lost connection, a violated unique, check or foreign-key constraint). The statements of
  one call of a store function are named by their role, and \<open>fl st = Some msg\<close> says that
  statement \<open>st\<close> of the call fails with the driver's error \<open>msg\<close>. Constraints are not
  modelled apart from that. One call of \<^verbatim>\<open>Create\<close> or \<^verbatim>\<open>Save\<close> is one statement here, also
  when GORM saves nested structs with it and sends several statements to the database.
\<close>

datatype stmt =
    StFirst  \<comment> \<open>the \<^verbatim>\<open>First\<close> that loads the entity\<close>
  | StCount  \<comment> \<open>the \<^verbatim>\<open>Count\<close> of referring rules\<close>
  | StAssoc  \<comment> \<open>the statement on the join table\<close>
  | StChildren  \<comment> \<open>the delete of a backend's addresses\<close>
  | StWrite  \<comment> \<open>the \<^verbatim>\<open>Create\<close>, \<^verbatim>\<open>Save\<close>, \<^verbatim>\<open>Updates\<close> or \<^verbatim>\<open>Delete\<close> of the entity\<close>
  | StLog  \<comment> \<open>the \<^verbatim>\<open>Create\<close> of the log row\<close>
  | StCommit  \<comment> \<open>\<^verbatim>\<open>Commit\<close>\<close>

type_synonym faults = "stmt \<Rightarrow> string option"

subsection \<open>GORM's statements on one table\<close>

text \<open>
  \<^verbatim>\<open>First(&x, id)\<close> finds the row with that id that is not soft-deleted. \<^verbatim>\<open>Create\<close> inserts
  the struct, with a new id when the struct's id is zero, and writes the id back to the
  struct; the new id, which the database takes from a sequence, is the successor of the
  largest id in the table here. \<^verbatim>\<open>Delete\<close> marks the rows it matches that are not marked
  yet.

  A column tagged \<^verbatim>\<open>default:true\<close> (\<^verbatim>\<open>Address.Available\<close>, \<^verbatim>\<open>Rule.Enabled\<close>) is written
  by an insert with its default when the struct holds the zero value \<^verbatim>\<open>false\<close>, and the
  default is written back to the struct: an insert always stores \<^verbatim>\<open>true\<close> there. Where a
  table has such a column, the insert is given the struct with the default in place
  (\<open>dflt\<close> below).

  \<open>Upsert\<close> is the insert with an \<^verbatim>\<open>ON CONFLICT\<close> clause that GORM uses for nested structs and
  for the second half of \<^verbatim>\<open>Save\<close>: when a row with the struct's id exists, soft-deleted or
  not, \<open>onConflict\<close> says what becomes of it; \<open>UpsertAll\<close> does so for a slice, row after
  row, and returns the ids of the structs.

  \<^verbatim>\<open>Save\<close> is \<^verbatim>\<open>Create\<close> for a struct whose id is zero. Otherwise it updates every column of
  the row with that id that is not soft-deleted; when no row was updated, it inserts the
  struct, \<^verbatim>\<open>ON CONFLICT\<close> updating every column.
\<close>

definition First :: "'a Model_scheme list \<Rightarrow> nat \<Rightarrow> 'a Model_scheme option" where
  "First tbl i = find (\<lambda>x. ID x = i \<and> \<not> DeletedAt x) tbl"

definition nextID :: "'a Model_scheme list \<Rightarrow> nat" where
  "nextID tbl = Suc (fold max (map ID tbl) 0)"

definition Create ::
  "'a Model_scheme list \<Rightarrow> 'a Model_scheme \<Rightarrow> 'a Model_scheme \<times> 'a Model_scheme list" where
  "Create tbl x = (let x' = (if ID x = 0 then x\<lparr>ID := nextID tbl\<rparr> else x) in (x', tbl @ [x']))"

definition Upsert ::
  "('a Model_scheme \<Rightarrow> 'a Model_scheme \<Rightarrow> 'a Model_scheme) \<Rightarrow> 'a Model_scheme list
     \<Rightarrow> 'a Model_scheme \<Rightarrow> 'a Model_scheme \<times> 'a Model_scheme list" where
  "Upsert onConflict tbl x =
     (if ID x \<noteq> 0 \<and> list_ex (\<lambda>y. ID y = ID x) tbl
      then (x, map (\<lambda>y. if ID y = ID x then onConflict y x else y) tbl)
      else Create tbl x)"

text \<open>The three \<^verbatim>\<open>ON CONFLICT\<close> clauses: do nothing; update all; update \<^verbatim>\<open>backend_id\<close>.\<close>

definition doNothing :: "'a Model_scheme \<Rightarrow> 'a Model_scheme \<Rightarrow> 'a Model_scheme" where
  "doNothing old new = old"

definition updateAll :: "'a Model_scheme \<Rightarrow> 'a Model_scheme \<Rightarrow> 'a Model_scheme" where
  "updateAll old new = new"

definition updateBackendID :: "Address \<Rightarrow> Address \<Rightarrow> Address" where
  "updateBackendID old new = old\<lparr>BackendID := BackendID new\<rparr>"

fun UpsertAll ::
  "('a Model_scheme \<Rightarrow> 'a Model_scheme \<Rightarrow> 'a Model_scheme) \<Rightarrow> 'a Model_scheme list
     \<Rightarrow> 'a Model_scheme list \<Rightarrow> nat list \<times> 'a Model_scheme list" where
  "UpsertAll onConflict tbl [] = ([], tbl)"
| "UpsertAll onConflict tbl (x # xs) =
     (let (x', tbl') = Upsert onConflict tbl x;
          (ids, tbl'') = UpsertAll onConflict tbl' xs
      in (ID x' # ids, tbl''))"

definition Save ::
  "('a Model_scheme \<Rightarrow> 'a Model_scheme) \<Rightarrow> 'a Model_scheme list \<Rightarrow> 'a Model_scheme
     \<Rightarrow> 'a Model_scheme \<times> 'a Model_scheme list" where
  "Save dflt tbl x =
     (if ID x = 0 then Create tbl (dflt x)
      else if list_ex (\<lambda>y. ID y = ID x \<and> \<not> DeletedAt y) tbl
        then (x, map (\<lambda>y. if ID y = ID x \<and> \<not> DeletedAt y then x else y) tbl)
      else Upsert updateAll tbl (dflt x))"

definition Delete :: "('a Model_scheme \<Rightarrow> bool) \<Rightarrow> 'a Model_scheme list \<Rightarrow> 'a Model_scheme list" where
  "Delete P tbl = map (\<lambda>x. if P x \<and> \<not> DeletedAt x then x\<lparr>DeletedAt := True\<rparr> else x) tbl"

definition Count :: "('a Model_scheme \<Rightarrow> bool) \<Rightarrow> 'a Model_scheme list \<Rightarrow> nat" where
  "Count P tbl = length (filter (\<lambda>x. P x \<and> \<not> DeletedAt x) tbl)"

subsection \<open>The structs that GORM saves along\<close>

text \<open>
  \<^verbatim>\<open>Create\<close> and \<^verbatim>\<open>Save\<close> save the structs in the association fields of their argument too
  (GORM's callbacks \<^verbatim>\<open>SaveBeforeAssociations\<close> and \<^verbatim>\<open>SaveAfterAssociations\<close>), and the program
  does not switch that off:
  \<^item> the struct a rule belongs to (\<^verbatim>\<open>SourceDefinition\<close>, \<^verbatim>\<open>BackendSet\<close>), unless it is the zero
    value (of the fields kept here), is inserted before the rule,
    \<^verbatim>\<open>ON CONFLICT DO NOTHING\<close>, and its id becomes the rule's foreign key;
  \<^item> the \<^verbatim>\<open>Addresses\<close> of a backend get the backend's id as \<^verbatim>\<open>BackendID\<close> and are inserted
    after it, \<^verbatim>\<open>ON CONFLICT\<close> updating \<^verbatim>\<open>backend_id\<close>;
  \<^item> the \<^verbatim>\<open>BackendSets\<close> of a backend and the \<^verbatim>\<open>Backends\<close> of a backend set are inserted
    after it, \<^verbatim>\<open>ON CONFLICT DO NOTHING\<close>, then their own associations are saved in the same
    way, then a row of the join table is inserted for each, \<^verbatim>\<open>ON CONFLICT DO NOTHING\<close>.
  GORM saves the elements of a slice as one batch, and of the elements of a batch that
  carry the same id other than zero only the first (\<open>distinctElems\<close>). A nested struct
  reaches the database as it is: nothing validates it, and no function of the program is
  called for it. The ids that GORM writes back into nested structs are not kept in the
  struct that a function of the store returns.
\<close>

fun distinctElems :: "('a \<Rightarrow> nat) \<Rightarrow> nat list \<Rightarrow> 'a list \<Rightarrow> 'a list" where
  "distinctElems key seen [] = []"
| "distinctElems key seen (x # xs) =
     (if key x \<noteq> 0 \<and> key x \<in> set seen then distinctElems key seen xs
      else x # distinctElems key (key x # seen) xs)"

definition insertJoins :: "(nat \<times> nat) list \<Rightarrow> (nat \<times> nat) list \<Rightarrow> (nat \<times> nat) list" where
  "insertJoins js tbl = fold (\<lambda>j t. if j \<in> set t then t else t @ [j]) js tbl"

text \<open>The number of structs in a struct, nested ones counted.\<close>

fun nodesB :: "BackendStruct \<Rightarrow> nat" and nodesS :: "BackendSetStruct \<Rightarrow> nat" where
  "nodesB (BackendStruct row as ss) = Suc (sum_list (map nodesS ss))"
| "nodesS (BackendSetStruct row bs) = Suc (sum_list (map nodesB bs))"

text \<open>
  \<open>saveBackendsAssociations ps db\<close> saves what is nested in the backends of a batch, each
  paired with the id its row has; \<open>saveBackendSetsAssociations\<close> does so for backend sets.
  Both return the ids of the structs of the first level, in the order of the slices.
\<close>

function saveBackendsAssociations ::
    "(nat \<times> BackendStruct) list \<Rightarrow> DB \<Rightarrow> nat list \<times> DB"
  and saveBackendSetsAssociations ::
    "(nat \<times> BackendSetStruct) list \<Rightarrow> DB \<Rightarrow> nat list \<times> DB" where
  "saveBackendsAssociations [] db = ([], db)"
| "saveBackendsAssociations (p # ps) db =
     (let as = distinctElems ID []
                 (concat (map (\<lambda>(i, b). map (\<lambda>a. a\<lparr>BackendID := i, Address.Available := True\<rparr>)
                                            (Addresses b)) (p # ps)));
          db1 = db\<lparr>addresses := snd (UpsertAll updateBackendID (addresses db) as)\<rparr>;
          ss = concat (map (\<lambda>(i, b). BackendSets b) (p # ps));
          (sids, tbl) = UpsertAll doNothing (backend_sets db1) (map BackendSet_row ss);
          (ids, db2) = saveBackendSetsAssociations
                         (distinctElems (\<lambda>(i, s). ID (BackendSet_row s)) [] (zip sids ss))
                         (db1\<lparr>backend_sets := tbl\<rparr>);
          owners = concat (map (\<lambda>(i, b). map (\<lambda>s. i) (BackendSets b)) (p # ps))
      in (sids, db2\<lparr>backend_set_backends :=
                      insertJoins (zip sids owners) (backend_set_backends db2)\<rparr>))"
| "saveBackendSetsAssociations [] db = ([], db)"
| "saveBackendSetsAssociations (p # ps) db =
     (let bs = concat (map (\<lambda>(i, s). Backends s) (p # ps));
          (bids, tbl) = UpsertAll doNothing (backends db) (map Backend_row bs);
          (ids, db1) = saveBackendsAssociations
                         (distinctElems (\<lambda>(i, b). ID (Backend_row b)) [] (zip bids bs))
                         (db\<lparr>backends := tbl\<rparr>);
          owners = concat (map (\<lambda>(i, s). map (\<lambda>b. i) (Backends s)) (p # ps))
      in (bids, db1\<lparr>backend_set_backends :=
                      insertJoins (zip owners bids) (backend_set_backends db1)\<rparr>))"
  by pat_completeness auto

termination
proof -
  have d: "sum_list (map f (distinctElems key seen xs)) \<le> sum_list (map f xs)"
    for f :: "'a \<Rightarrow> nat" and key seen and xs :: "'a list"
    by (induction xs arbitrary: seen) (simp_all add: le_SucI trans_le_add2)
  have z: "sum_list (map (\<lambda>p. f (snd p)) (zip is xs)) \<le> sum_list (map f xs)"
    for f :: "'a \<Rightarrow> nat" and "is" :: "nat list" and xs :: "'a list"
  proof (induction xs arbitrary: "is")
    case Nil
    then show ?case by simp
  next
    case (Cons x xs)
    then show ?case by (cases "is") (simp_all add: add_le_mono)
  qed
  have b0: "sum_list (map nodesS (concat (map (\<lambda>(i, b). BackendSets b) ps)))
             \<le> sum_list (map (\<lambda>p. nodesB (snd p)) ps)"
    for ps :: "(nat \<times> BackendStruct) list"
  proof (induction ps)
    case Nil
    then show ?case by simp
  next
    case (Cons p ps)
    then show ?case by (cases p, cases "snd p") auto
  qed
  have b: "sum_list (map nodesS (concat (map (\<lambda>(i, b). BackendSets b) (p # ps))))
             < sum_list (map (\<lambda>p. nodesB (snd p)) (p # ps))"
    for p and ps :: "(nat \<times> BackendStruct) list"
    using b0 [of ps] by (cases p, cases "snd p") auto
  have s0: "sum_list (map nodesB (concat (map (\<lambda>(i, s). Backends s) ps)))
             \<le> sum_list (map (\<lambda>p. nodesS (snd p)) ps)"
    for ps :: "(nat \<times> BackendSetStruct) list"
  proof (induction ps)
    case Nil
    then show ?case by simp
  next
    case (Cons p ps)
    then show ?case by (cases p, cases "snd p") auto
  qed
  have s: "sum_list (map nodesB (concat (map (\<lambda>(i, s). Backends s) (p # ps))))
             < sum_list (map (\<lambda>p. nodesS (snd p)) (p # ps))"
    for p and ps :: "(nat \<times> BackendSetStruct) list"
    using s0 [of ps] by (cases p, cases "snd p") auto
  show ?thesis
  proof (relation "measure (\<lambda>x. case x of
            Inl (ps, db) \<Rightarrow> sum_list (map (\<lambda>p. nodesB (snd p)) ps)
          | Inr (ps, db) \<Rightarrow> sum_list (map (\<lambda>p. nodesS (snd p)) ps))", goal_cases)
    case 1
    then show ?case by simp
  next
    case (2 p ps db as db1 ss x sids tbl)
    have "sum_list (map (\<lambda>p. nodesS (snd p))
            (distinctElems (\<lambda>(i, s). ID (BackendSet_row s)) [] (zip sids ss)))
          \<le> sum_list (map (\<lambda>p. nodesS (snd p)) (zip sids ss))"
      by (rule d)
    also have "\<dots> \<le> sum_list (map nodesS ss)"
      by (rule z)
    also have "\<dots> < sum_list (map (\<lambda>p. nodesB (snd p)) (p # ps))"
      unfolding 2(3) by (rule b)
    finally show ?case
      by simp
  next
    case (3 p ps db bs x bids tbl)
    have "sum_list (map (\<lambda>p. nodesB (snd p))
            (distinctElems (\<lambda>(i, b). ID (Backend_row b)) [] (zip bids bs)))
          \<le> sum_list (map (\<lambda>p. nodesB (snd p)) (zip bids bs))"
      by (rule d)
    also have "\<dots> \<le> sum_list (map nodesB bs)"
      by (rule z)
    also have "\<dots> < sum_list (map (\<lambda>p. nodesS (snd p)) (p # ps))"
      unfolding 3(1) by (rule s)
    finally show ?case
      by simp
  qed
qed

text \<open>The verb \<^verbatim>\<open>%d\<close> on an \<^verbatim>\<open>int\<close>.\<close>

definition Sprintf_int :: "int \<Rightarrow> string" where
  "Sprintf_int i = (if i < 0 then CHR ''-'' # Sprintf_d (nat (- i)) else Sprintf_d (nat i))"

text \<open>\<^verbatim>\<open>err.Error()\<close>.\<close>

fun Error :: "error \<Rightarrow> string" where
  "Error ErrRecordNotFound = ''record not found''"
| "Error ErrPrimaryKeyRequired = ''primary key required''"
| "Error (ErrDriver msg) = msg"
| "Error (Errorf msg) = msg"
| "Error (Panic msg) = msg"

subsection \<open>The end of every write: log the change, commit\<close>

text \<open>
  Every write of the configuration ends with the same two steps inside its transaction
  \<open>tx\<close>: \<^verbatim>\<open>tx.Create(&models.ConfigChange{...})\<close>, with \<^verbatim>\<open>tx.Rollback()\<close> and the error on
  failure, and \<^verbatim>\<open>return tx.Commit().Error\<close>. A transaction is the database as its statements
  have changed it so far; rollback, and a commit that fails, leave the database \<open>db\<close> the
  call started with.
\<close>

definition logChange ::
  "faults \<Rightarrow> string \<Rightarrow> string \<Rightarrow> nat \<Rightarrow> string \<Rightarrow> string \<Rightarrow> DB \<Rightarrow> error + DB" where
  "logChange fl changeType entityType entityID description changedBy tx =
     (case fl StLog of
        Some msg \<Rightarrow> Inl (ErrDriver msg)
      | None \<Rightarrow>
          Inr (tx\<lparr>config_changes := snd (Create (config_changes tx)
                 \<lparr>ID = 0, DeletedAt = False, ChangeType = changeType, EntityType = entityType,
                  EntityID = entityID, Description = description, ChangedBy = changedBy\<rparr>)\<rparr>))"

definition Commit :: "faults \<Rightarrow> DB \<Rightarrow> DB \<Rightarrow> 'r \<Rightarrow> (error + 'r) \<times> DB" where
  "Commit fl tx db r =
     (case fl StCommit of Some msg \<Rightarrow> (Inl (ErrDriver msg), db) | None \<Rightarrow> (Inr r, tx))"

definition logAndCommit ::
  "faults \<Rightarrow> string \<Rightarrow> string \<Rightarrow> nat \<Rightarrow> string \<Rightarrow> string \<Rightarrow> DB \<Rightarrow> DB \<Rightarrow> 'r
     \<Rightarrow> (error + 'r) \<times> DB" where
  "logAndCommit fl changeType entityType entityID description changedBy tx db r =
     (case logChange fl changeType entityType entityID description changedBy tx of
        Inl err \<Rightarrow> (Inl err, db)
      | Inr tx' \<Rightarrow> Commit fl tx' db r)"

subsection \<open>Availability\<close>

text \<open>
  \<^verbatim>\<open>LogAvailabilityChange\<close> issues its two statements on \<^verbatim>\<open>s.db\<close>, outside any transaction:
  each is committed when it returns. \<open>now\<close> and \<open>now'\<close> are the two readings of
  \<^verbatim>\<open>time.Now()\<close>, the first for the log row, the second for the address.
  The \<^verbatim>\<open>Address\<close> struct of the log row stays the zero value, so nothing is saved along
  with the row.
\<close>

definition LogAvailabilityChange ::
  "faults \<Rightarrow> nat \<Rightarrow> nat \<Rightarrow> nat \<Rightarrow> bool \<Rightarrow> string \<Rightarrow> DB \<Rightarrow> (error + unit) \<times> DB" where
  "LogAvailabilityChange fl now now' addressID available checkError db =
     (let log = \<lparr>ID = 0, DeletedAt = False, AddressID = addressID, Available = available,
                 CheckTime = now, CheckError = checkError\<rparr>
      in
      case fl StWrite of
        Some msg \<Rightarrow> (Inl (ErrDriver msg), db)
      | None \<Rightarrow>
          let db1 = db\<lparr>addresses :=
                map (\<lambda>a. if ID a = addressID \<and> \<not> DeletedAt a
                          then a\<lparr>Address.Available := available, LastChecked := now'\<rparr> else a)
                    (addresses db)\<rparr>
          in
          case fl StLog of
            Some msg \<Rightarrow> (Inl (ErrDriver msg), db1)
          | None \<Rightarrow>
              (Inr (), db1\<lparr>availability_logs := snd (Create (availability_logs db1) log)\<rparr>))"

subsection \<open>Writes of the configuration\<close>

text \<open>
  A statement of a write: when it fails, the function rolls its transaction back, if it has
  begun one, and returns the error; the database is as before the call.
\<close>

definition attempt ::
  "faults \<Rightarrow> stmt \<Rightarrow> DB \<Rightarrow> (error + 'r) \<times> DB \<Rightarrow> (error + 'r) \<times> DB" where
  "attempt fl st db rest = (case fl st of Some msg \<Rightarrow> (Inl (ErrDriver msg), db) | None \<Rightarrow> rest)"

text \<open>
  \<^verbatim>\<open>tx.Create(backend)\<close> and \<^verbatim>\<open>tx.Save(backend)\<close>: the row, then what is nested in the
  struct. When \<^verbatim>\<open>Save\<close> finds no row to update, GORM has saved the nested structs by then
  and inserts the row last.
\<close>

definition Create_Backend :: "BackendStruct \<Rightarrow> DB \<Rightarrow> Backend \<times> DB" where
  "Create_Backend backend tx =
     (let (row, tbl) = Create (backends tx) (Backend_row backend);
          (ids, tx') = saveBackendsAssociations [(ID row, backend)] (tx\<lparr>backends := tbl\<rparr>)
      in (row, tx'))"

definition Save_Backend :: "BackendStruct \<Rightarrow> DB \<Rightarrow> Backend \<times> DB" where
  "Save_Backend backend tx =
     (let row0 = Backend_row backend in
      if ID row0 = 0 \<or> list_ex (\<lambda>y. ID y = ID row0 \<and> \<not> DeletedAt y) (backends tx) then
        (let (row, tbl) = Save (\<lambda>b. b) (backends tx) row0;
             (ids, tx') = saveBackendsAssociations [(ID row, backend)] (tx\<lparr>backends := tbl\<rparr>)
         in (row, tx'))
      else
        (let (ids, tx1) = saveBackendsAssociations [(ID row0, backend)] tx;
             (row, tbl) = Upsert updateAll (backends tx1) row0
         in (row, tx1\<lparr>backends := tbl\<rparr>)))"

definition CreateBackend ::
  "faults \<Rightarrow> BackendStruct \<Rightarrow> string \<Rightarrow> DB \<Rightarrow> (error + BackendStruct) \<times> DB" where
  "CreateBackend fl backend changedBy db =
     attempt fl StWrite db
       (let (row, tx) = Create_Backend backend db
        in logAndCommit fl ''create'' ''backend'' (ID row)
             (''Created backend '' @ Backend.Name row) changedBy tx db
             (BackendStruct row (Addresses backend) (BackendSets backend)))"

definition UpdateBackend ::
  "faults \<Rightarrow> BackendStruct \<Rightarrow> string \<Rightarrow> DB \<Rightarrow> (error + BackendStruct) \<times> DB" where
  "UpdateBackend fl backend changedBy db =
     attempt fl StWrite db
       (let (row, tx) = Save_Backend backend db
        in logAndCommit fl ''update'' ''backend'' (ID row)
             (''Updated backend '' @ Backend.Name row) changedBy tx db
             (BackendStruct row (Addresses backend) (BackendSets backend)))"

definition DeleteBackend :: "faults \<Rightarrow> nat \<Rightarrow> string \<Rightarrow> DB \<Rightarrow> (error + unit) \<times> DB" where
  "DeleteBackend fl id' changedBy db =
     attempt fl StFirst db
       (case First (backends db) id' of
          None \<Rightarrow> (Inl ErrRecordNotFound, db)
        | Some backend \<Rightarrow>
            attempt fl StAssoc db
              (let tx1 = db\<lparr>backend_set_backends :=
                           filter (\<lambda>(s, b). b \<noteq> id') (backend_set_backends db)\<rparr>
               in attempt fl StChildren db
                 (let tx2 = tx1\<lparr>addresses := Delete (\<lambda>a. BackendID a = id') (addresses tx1)\<rparr>
                  in attempt fl StWrite db
                    (let tx3 = tx2\<lparr>backends := Delete (\<lambda>b. ID b = ID backend) (backends tx2)\<rparr>
                     in logAndCommit fl ''delete'' ''backend'' id'
                          (''Deleted backend '' @ Backend.Name backend) changedBy tx3 db ()))))"

text \<open>An address has no associations; its \<^verbatim>\<open>Available\<close> has the default \<^verbatim>\<open>true\<close>.\<close>

definition CreateAddress ::
  "faults \<Rightarrow> nat \<Rightarrow> Address \<Rightarrow> string \<Rightarrow> DB \<Rightarrow> (error + Address) \<times> DB" where
  "CreateAddress fl backendID address0 changedBy db =
     (let address = address0\<lparr>BackendID := backendID\<rparr> in
      attempt fl StWrite db
        (let (address', tbl) = Create (addresses db) (address\<lparr>Address.Available := True\<rparr>);
             tx = db\<lparr>addresses := tbl\<rparr>
         in logAndCommit fl ''create'' ''address'' (ID address')
              (''Added address '' @ IP address' @ '':'' @ Sprintf_int (Port address')
                 @ '' to backend ID '' @ Sprintf_d backendID)
              changedBy tx db address'))"

definition GetAddress :: "faults \<Rightarrow> nat \<Rightarrow> DB \<Rightarrow> error + Address" where
  "GetAddress fl id' db =
     (case fl StFirst of
        Some msg \<Rightarrow> Inl (ErrDriver msg)
      | None \<Rightarrow> (case First (addresses db) id' of
                   None \<Rightarrow> Inl ErrRecordNotFound
                 | Some address \<Rightarrow> Inr address))"

definition UpdateAddress :: "faults \<Rightarrow> Address \<Rightarrow> string \<Rightarrow> DB \<Rightarrow> (error + Address) \<times> DB" where
  "UpdateAddress fl address changedBy db =
     attempt fl StWrite db
       (let (address', tbl) =
              Save (\<lambda>a. a\<lparr>Address.Available := True\<rparr>) (addresses db) address;
            tx = db\<lparr>addresses := tbl\<rparr>
        in logAndCommit fl ''update'' ''address'' (ID address')
             (''Updated address '' @ IP address' @ '':'' @ Sprintf_int (Port address'))
             changedBy tx db address')"

definition DeleteAddress :: "faults \<Rightarrow> nat \<Rightarrow> string \<Rightarrow> DB \<Rightarrow> (error + unit) \<times> DB" where
  "DeleteAddress fl id' changedBy db =
     attempt fl StFirst db
       (case First (addresses db) id' of
          None \<Rightarrow> (Inl ErrRecordNotFound, db)
        | Some address \<Rightarrow>
            attempt fl StWrite db
              (let tx = db\<lparr>addresses := Delete (\<lambda>a. ID a = ID address) (addresses db)\<rparr>
               in logAndCommit fl ''delete'' ''address'' id'
                    (''Deleted address '' @ IP address @ '':'' @ Sprintf_int (Port address))
                    changedBy tx db ()))"

text \<open>
  The association of a backend set with its backends. \<^verbatim>\<open>tx.Create(backendSet)\<close> has saved
  the \<^verbatim>\<open>Backends\<close> of the struct and their rows of the join table; the
  \<^verbatim>\<open>Association("Backends").Replace\<close> that follows saves them once more, which finds every
  row in place, and deletes the rows of the join table that tie the set to any other
  backend. \<^verbatim>\<open>Association("Backends").Clear\<close> is \<^verbatim>\<open>Replace\<close> with no backend: it empties the
  \<^verbatim>\<open>Backends\<close> of the struct it is called on, so that the \<^verbatim>\<open>Save\<close> that follows it in
  \<^verbatim>\<open>UpdateBackendSet\<close> finds nothing nested, and deletes the set's rows of the join table;
  for a struct whose id is zero it returns \<^verbatim>\<open>gorm.ErrPrimaryKeyRequired\<close> instead.
\<close>

definition replaceBackends :: "nat \<Rightarrow> nat list \<Rightarrow> (nat \<times> nat) list \<Rightarrow> (nat \<times> nat) list" where
  "replaceBackends sid bs joins = filter (\<lambda>(s, b). s \<noteq> sid \<or> b \<in> set bs) joins"

definition Create_BackendSet :: "BackendSetStruct \<Rightarrow> DB \<Rightarrow> BackendSet \<times> nat list \<times> DB" where
  "Create_BackendSet backendSet tx =
     (let (row, tbl) = Create (backend_sets tx) (BackendSet_row backendSet);
          (ids, tx') = saveBackendSetsAssociations [(ID row, backendSet)]
                         (tx\<lparr>backend_sets := tbl\<rparr>)
      in (row, ids, tx'))"

definition CreateBackendSet ::
  "faults \<Rightarrow> BackendSetStruct \<Rightarrow> string \<Rightarrow> DB \<Rightarrow> (error + BackendSetStruct) \<times> DB" where
  "CreateBackendSet fl backendSet changedBy db =
     attempt fl StWrite db
       (let (row, ids, tx) = Create_BackendSet backendSet db;
            finish = (\<lambda>tx'. logAndCommit fl ''create'' ''backend_set'' (ID row)
                        (''Created backend set '' @ BackendSet.Name row)
                        changedBy tx' db (BackendSetStruct row (Backends backendSet)))
        in
        if 0 < length (Backends backendSet) then
          attempt fl StAssoc db
            (finish (tx\<lparr>backend_set_backends :=
                       replaceBackends (ID row) ids (backend_set_backends tx)\<rparr>))
        else finish tx)"

definition UpdateBackendSet ::
  "faults \<Rightarrow> BackendSetStruct \<Rightarrow> string \<Rightarrow> DB \<Rightarrow> (error + BackendSetStruct) \<times> DB" where
  "UpdateBackendSet fl backendSet0 changedBy db =
     (if ID (BackendSet_row backendSet0) = 0 then (Inl ErrPrimaryKeyRequired, db)
      else
        attempt fl StAssoc db
          (let tx1 = db\<lparr>backend_set_backends :=
                       replaceBackends (ID (BackendSet_row backendSet0)) []
                         (backend_set_backends db)\<rparr>;
               backendSet = BackendSetStruct (BackendSet_row backendSet0) []
           in attempt fl StWrite db
             (let (row, tbl) = Save (\<lambda>s. s) (backend_sets tx1) (BackendSet_row backendSet);
                  tx2 = tx1\<lparr>backend_sets := tbl\<rparr>
              in logAndCommit fl ''update'' ''backend_set'' (ID row)
                   (''Updated backend set '' @ BackendSet.Name row)
                   changedBy tx2 db (BackendSetStruct row (Backends backendSet)))))"

definition DeleteBackendSet :: "faults \<Rightarrow> nat \<Rightarrow> string \<Rightarrow> DB \<Rightarrow> (error + unit) \<times> DB" where
  "DeleteBackendSet fl id' changedBy db =
     attempt fl StFirst db
       (case First (backend_sets db) id' of
          None \<Rightarrow> (Inl ErrRecordNotFound, db)
        | Some backendSet \<Rightarrow>
            attempt fl StCount db
              (let count = Count (\<lambda>r. BackendSetID r = id') (rules db) in
               if 0 < count then
                 (Inl (Errorf (''cannot delete backend set: it is used by '' @ Sprintf_d count
                               @ '' rules'')), db)
               else
                 attempt fl StAssoc db
                   (let tx1 = db\<lparr>backend_set_backends :=
                                replaceBackends (ID backendSet) [] (backend_set_backends db)\<rparr>
                    in attempt fl StWrite db
                      (let tx2 = tx1\<lparr>backend_sets :=
                                   Delete (\<lambda>b. ID b = ID backendSet) (backend_sets tx1)\<rparr>
                       in logAndCommit fl ''delete'' ''backend_set'' id'
                            (''Deleted backend set '' @ BackendSet.Name backendSet)
                            changedBy tx2 db ()))))"

definition CreateSourceDefinition ::
  "faults \<Rightarrow> SourceDefinition \<Rightarrow> string \<Rightarrow> DB \<Rightarrow> (error + SourceDefinition) \<times> DB" where
  "CreateSourceDefinition fl sourceDefinition changedBy db =
     (if \<not> Validate sourceDefinition then
        (Inl (Errorf ''invalid source definition parameters''), db)
      else
        attempt fl StWrite db
          (let (sourceDefinition', tbl) = Create (source_definitions db) sourceDefinition;
               tx = db\<lparr>source_definitions := tbl\<rparr>
           in logAndCommit fl ''create'' ''source_definition'' (ID sourceDefinition')
                (''Created source definition '' @ Name sourceDefinition')
                changedBy tx db sourceDefinition'))"

definition UpdateSourceDefinition ::
  "faults \<Rightarrow> SourceDefinition \<Rightarrow> string \<Rightarrow> DB \<Rightarrow> (error + SourceDefinition) \<times> DB" where
  "UpdateSourceDefinition fl sourceDefinition changedBy db =
     (if \<not> Validate sourceDefinition then
        (Inl (Errorf ''invalid source definition parameters''), db)
      else
        attempt fl StWrite db
          (let (sourceDefinition', tbl) =
                 Save (\<lambda>d. d) (source_definitions db) sourceDefinition;
               tx = db\<lparr>source_definitions := tbl\<rparr>
           in logAndCommit fl ''update'' ''source_definition'' (ID sourceDefinition')
                (''Updated source definition '' @ Name sourceDefinition')
                changedBy tx db sourceDefinition'))"

definition DeleteSourceDefinition ::
  "faults \<Rightarrow> nat \<Rightarrow> string \<Rightarrow> DB \<Rightarrow> (error + unit) \<times> DB" where
  "DeleteSourceDefinition fl id' changedBy db =
     attempt fl StFirst db
       (case First (source_definitions db) id' of
          None \<Rightarrow> (Inl ErrRecordNotFound, db)
        | Some sourceDefinition \<Rightarrow>
            attempt fl StCount db
              (let count = Count (\<lambda>r. SourceDefinitionID r = id') (rules db) in
               if 0 < count then
                 (Inl (Errorf (''cannot delete source definition: it is used by ''
                               @ Sprintf_d count @ '' rules'')), db)
               else
                 attempt fl StWrite db
                   (let tx = db\<lparr>source_definitions :=
                               Delete (\<lambda>d. ID d = ID sourceDefinition) (source_definitions db)\<rparr>
                    in logAndCommit fl ''delete'' ''source_definition'' id'
                         (''Deleted source definition '' @ Name sourceDefinition)
                         changedBy tx db ())))"

text \<open>
  \<^verbatim>\<open>tx.Create(rule)\<close> and \<^verbatim>\<open>tx.Save(rule)\<close>: first the two structs the rule belongs to, each
  unless it is the zero value, and the rule's foreign keys are set to their ids, whatever
  the request gave there; then the row of the rule, whose \<^verbatim>\<open>Enabled\<close> has the default
  \<^verbatim>\<open>true\<close>.
\<close>

definition saveBelongsTo :: "Rule \<Rightarrow> DB \<Rightarrow> Rule \<times> DB" where
  "saveBelongsTo rule tx =
     (let (rule1, tx1) =
            (if SourceDefinition rule = zeroSourceDefinition then (rule, tx)
             else
               let (sd, tbl) = Upsert doNothing (source_definitions tx) (SourceDefinition rule)
               in (rule\<lparr>SourceDefinitionID := ID sd, SourceDefinition := sd\<rparr>,
                   tx\<lparr>source_definitions := tbl\<rparr>))
      in
      if BackendSet rule1 = zeroBackendSet then (rule1, tx1)
      else
        let (row, tbl) = Upsert doNothing (backend_sets tx1) (BackendSet_row (BackendSet rule1));
            (ids, tx2) = saveBackendSetsAssociations [(ID row, BackendSet rule1)]
                           (tx1\<lparr>backend_sets := tbl\<rparr>)
        in (rule1\<lparr>BackendSetID := ID row,
                   BackendSet := BackendSetStruct row (Backends (BackendSet rule1))\<rparr>, tx2))"

definition Create_Rule :: "Rule \<Rightarrow> DB \<Rightarrow> Rule \<times> DB" where
  "Create_Rule rule tx =
     (let (rule1, tx1) = saveBelongsTo rule tx;
          (rule', tbl) = Create (rules tx1) (rule1\<lparr>Enabled := True\<rparr>)
      in (rule', tx1\<lparr>rules := tbl\<rparr>))"

definition Save_Rule :: "Rule \<Rightarrow> DB \<Rightarrow> Rule \<times> DB" where
  "Save_Rule rule tx =
     (let (rule1, tx1) = saveBelongsTo rule tx;
          (rule', tbl) = Save (\<lambda>r. r\<lparr>Enabled := True\<rparr>) (rules tx1) rule1
      in (rule', tx1\<lparr>rules := tbl\<rparr>))"

definition CreateRule :: "faults \<Rightarrow> Rule \<Rightarrow> string \<Rightarrow> DB \<Rightarrow> (error + Rule) \<times> DB" where
  "CreateRule fl rule changedBy db =
     attempt fl StWrite db
       (let (rule', tx) = Create_Rule rule db
        in logAndCommit fl ''create'' ''rule'' (ID rule')
             (''Created rule with priority '' @ Sprintf_int (Priority rule'))
             changedBy tx db rule')"

definition UpdateRule :: "faults \<Rightarrow> Rule \<Rightarrow> string \<Rightarrow> DB \<Rightarrow> (error + Rule) \<times> DB" where
  "UpdateRule fl rule changedBy db =
     attempt fl StWrite db
       (let (rule', tx) = Save_Rule rule db
        in logAndCommit fl ''update'' ''rule'' (ID rule')
             (''Updated rule with priority '' @ Sprintf_int (Priority rule'))
             changedBy tx db rule')"

definition DeleteRule :: "faults \<Rightarrow> nat \<Rightarrow> string \<Rightarrow> DB \<Rightarrow> (error + unit) \<times> DB" where
  "DeleteRule fl id' changedBy db =
     attempt fl StFirst db
       (case First (rules db) id' of
          None \<Rightarrow> (Inl ErrRecordNotFound, db)
        | Some rule \<Rightarrow>
            attempt fl StWrite db
              (let tx = db\<lparr>rules := Delete (\<lambda>r. ID r = ID rule) (rules db)\<rparr>
               in logAndCommit fl ''delete'' ''rule'' id'
                    (''Deleted rule with priority '' @ Sprintf_int (Priority rule))
                    changedBy tx db ()))"

subsection \<open>The rules of a reconciliation tick\<close>

text \<open>
  \<^verbatim>\<open>GetActiveRules\<close> asks the database for the rules \<^verbatim>\<open>Where("enabled = ?", true)\<close> in
  \<^verbatim>\<open>Order("priority DESC")\<close>, each with its source definition and its backend set
  preloaded, the backend set with its backends and these with their available addresses.
  The query names no second sort key, and SQL leaves the order of rows with equal keys to
  the database; so the function is a relation: \<open>GetActiveRules db rs\<close> holds when \<open>rs\<close> is an
  answer the database may give, that is, the enabled rules that are not soft-deleted, some
  way round, with priorities descending. A preload that finds no row leaves the zero
  struct. The preloaded backends and addresses are taken in the order of their tables; the
  program reads nothing of them.
\<close>

definition preloadBackendSet :: "DB \<Rightarrow> nat \<Rightarrow> BackendSetStruct" where
  "preloadBackendSet db i =
     (case First (backend_sets db) i of
        None \<Rightarrow> zeroBackendSet
      | Some row \<Rightarrow>
          BackendSetStruct row
            (map (\<lambda>b. BackendStruct b
                        (filter (\<lambda>a. BackendID a = ID b \<and> Address.Available a \<and> \<not> DeletedAt a)
                           (addresses db)) [])
               (filter (\<lambda>b. (i, ID b) \<in> set (backend_set_backends db) \<and> \<not> DeletedAt b)
                  (backends db))))"

definition preload :: "DB \<Rightarrow> Rule \<Rightarrow> Rule" where
  "preload db r =
     r\<lparr>SourceDefinition :=
         (case First (source_definitions db) (SourceDefinitionID r) of
            None \<Rightarrow> zeroSourceDefinition
          | Some sd \<Rightarrow> sd),
       BackendSet := preloadBackendSet db (BackendSetID r)\<rparr>"

definition GetActiveRules :: "DB \<Rightarrow> Rule list \<Rightarrow> bool" where
  "GetActiveRules db rs =
     (mset rs = mset (map (preload db) (filter (\<lambda>r. Enabled r \<and> \<not> DeletedAt r) (rules db)))
      \<and> sorted_wrt (\<lambda>a b. Priority b \<le> Priority a) rs)"

section \<open>The REST handlers (internal/api)\<close>

text \<open>
  A handler gets the route parameter \<^verbatim>\<open>:id\<close> as text, the outcome of \<^verbatim>\<open>c.ShouldBindJSON\<close>
  (the bound struct, or the text of the binding error) and \<^verbatim>\<open>c.ClientIP()\<close>; it answers
  with a status and a JSON body.
\<close>

datatype body = ErrorJSON string | AddressJSON Address | RuleJSON Rule | NoBody

record response =
  status :: nat
  body :: body

definition deleteBackendSet :: "faults \<Rightarrow> string \<Rightarrow> string \<Rightarrow> DB \<Rightarrow> response \<times> DB" where
  "deleteBackendSet fl idParam clientIP db =
     (case ParseUint32 idParam of
        None \<Rightarrow> (\<lparr>status = 400, body = ErrorJSON ''Invalid ID format''\<rparr>, db)
      | Some id' \<Rightarrow>
          (case DeleteBackendSet fl id' clientIP db of
             (Inl err, db') \<Rightarrow> (\<lparr>status = 500, body = ErrorJSON (Error err)\<rparr>, db')
           | (Inr u, db') \<Rightarrow> (\<lparr>status = 204, body = NoBody\<rparr>, db')))"

definition updateAddress ::
  "faults \<Rightarrow> string \<Rightarrow> string + Address \<Rightarrow> string \<Rightarrow> DB \<Rightarrow> response \<times> DB" where
  "updateAddress fl idParam bound clientIP db =
     (case ParseUint32 idParam of
        None \<Rightarrow> (\<lparr>status = 400, body = ErrorJSON ''Invalid ID format''\<rparr>, db)
      | Some id' \<Rightarrow>
          (case GetAddress fl id' db of
             Inl err \<Rightarrow> (\<lparr>status = 404, body = ErrorJSON ''Address not found''\<rparr>, db)
           | Inr existingAddress \<Rightarrow>
               (case bound of
                  Inl msg \<Rightarrow> (\<lparr>status = 400, body = ErrorJSON msg\<rparr>, db)
                | Inr address0 \<Rightarrow>
                    let address = address0\<lparr>ID := id', BackendID := BackendID existingAddress\<rparr>
                    in
                    if ParseIP (IP address) = [] then
                      (\<lparr>status = 400, body = ErrorJSON ''Invalid IP address''\<rparr>, db)
                    else
                      (case UpdateAddress fl address clientIP db of
                         (Inl err, db') \<Rightarrow> (\<lparr>status = 500, body = ErrorJSON (Error err)\<rparr>, db')
                       | (Inr address', db') \<Rightarrow>
                           (\<lparr>status = 200, body = AddressJSON address'\<rparr>, db')))))"

definition createRule :: "faults \<Rightarrow> string + Rule \<Rightarrow> string \<Rightarrow> DB \<Rightarrow> response \<times> DB" where
  "createRule fl bound clientIP db =
     (case bound of
        Inl msg \<Rightarrow> (\<lparr>status = 400, body = ErrorJSON msg\<rparr>, db)
      | Inr rule \<Rightarrow>
          if SourceDefinitionID rule = 0 then
            (\<lparr>status = 400, body = ErrorJSON ''Source definition ID is required''\<rparr>, db)
          else if BackendSetID rule = 0 then
            (\<lparr>status = 400, body = ErrorJSON ''Backend set ID is required''\<rparr>, db)
          else
            (case CreateRule fl rule clientIP db of
               (Inl err, db') \<Rightarrow> (\<lparr>status = 500, body = ErrorJSON (Error err)\<rparr>, db')
             | (Inr rule', db') \<Rightarrow> (\<lparr>status = 201, body = RuleJSON rule'\<rparr>, db')))"

definition updateRule ::
  "faults \<Rightarrow> string \<Rightarrow> string + Rule \<Rightarrow> string \<Rightarrow> DB \<Rightarrow> response \<times> DB" where
  "updateRule fl idParam bound clientIP db =
     (case ParseUint32 idParam of
        None \<Rightarrow> (\<lparr>status = 400, body = ErrorJSON ''Invalid ID format''\<rparr>, db)
      | Some id' \<Rightarrow>
          (case bound of
             Inl msg \<Rightarrow> (\<lparr>status = 400, body = ErrorJSON msg\<rparr>, db)
           | Inr rule0 \<Rightarrow>
               let rule = rule0\<lparr>ID := id'\<rparr> in
               if SourceDefinitionID rule = 0 then
                 (\<lparr>status = 400, body = ErrorJSON ''Source definition ID is required''\<rparr>, db)
               else if BackendSetID rule = 0 then
                 (\<lparr>status = 400, body = ErrorJSON ''Backend set ID is required''\<rparr>, db)
               else
                 (case UpdateRule fl rule clientIP db of
                    (Inl err, db') \<Rightarrow> (\<lparr>status = 500, body = ErrorJSON (Error err)\<rparr>, db')
                  | (Inr rule', db') \<Rightarrow> (\<lparr>status = 200, body = RuleJSON rule'\<rparr>, db'))))"

section \<open>The writes of the store, as one family\<close>

text \<open>
  The fifteen writes of the configuration, named so that a property of all of them is one
  statement: \<open>run\<close> calls the store function and keeps, of what it returns, the id of the
  entity written.
\<close>

datatype mutation =
    WCreateBackend BackendStruct | WUpdateBackend BackendStruct | WDeleteBackend nat
  | WCreateAddress nat Address | WUpdateAddress Address | WDeleteAddress nat
  | WCreateBackendSet BackendSetStruct | WUpdateBackendSet BackendSetStruct
  | WDeleteBackendSet nat
  | WCreateSourceDefinition SourceDefinition | WUpdateSourceDefinition SourceDefinition
  | WDeleteSourceDefinition nat
  | WCreateRule Rule | WUpdateRule Rule | WDeleteRule nat

definition entityID :: "('r \<Rightarrow> nat) \<Rightarrow> (error + 'r) \<times> DB \<Rightarrow> (error + nat) \<times> DB" where
  "entityID f res = (case res of (Inl err, db') \<Rightarrow> (Inl err, db') | (Inr r, db') \<Rightarrow> (Inr (f r), db'))"

fun run :: "faults \<Rightarrow> string \<Rightarrow> mutation \<Rightarrow> DB \<Rightarrow> (error + nat) \<times> DB" where
  "run fl who (WCreateBackend b) db =
     entityID (\<lambda>r. ID (Backend_row r)) (CreateBackend fl b who db)"
| "run fl who (WUpdateBackend b) db =
     entityID (\<lambda>r. ID (Backend_row r)) (UpdateBackend fl b who db)"
| "run fl who (WDeleteBackend i) db = entityID (\<lambda>u. i) (DeleteBackend fl i who db)"
| "run fl who (WCreateAddress i a) db = entityID ID (CreateAddress fl i a who db)"
| "run fl who (WUpdateAddress a) db = entityID ID (UpdateAddress fl a who db)"
| "run fl who (WDeleteAddress i) db = entityID (\<lambda>u. i) (DeleteAddress fl i who db)"
| "run fl who (WCreateBackendSet s) db =
     entityID (\<lambda>r. ID (BackendSet_row r)) (CreateBackendSet fl s who db)"
| "run fl who (WUpdateBackendSet s) db =
     entityID (\<lambda>r. ID (BackendSet_row r)) (UpdateBackendSet fl s who db)"
| "run fl who (WDeleteBackendSet i) db = entityID (\<lambda>u. i) (DeleteBackendSet fl i who db)"
| "run fl who (WCreateSourceDefinition d) db = entityID ID (CreateSourceDefinition fl d who db)"
| "run fl who (WUpdateSourceDefinition d) db = entityID ID (UpdateSourceDefinition fl d who db)"
| "run fl who (WDeleteSourceDefinition i) db =
     entityID (\<lambda>u. i) (DeleteSourceDefinition fl i who db)"
| "run fl who (WCreateRule r) db = entityID ID (CreateRule fl r who db)"
| "run fl who (WUpdateRule r) db = entityID ID (UpdateRule fl r who db)"
| "run fl who (WDeleteRule i) db = entityID (\<lambda>u. i) (DeleteRule fl i who db)"

fun changeKind :: "mutation \<Rightarrow> string" where
  "changeKind (WCreateBackend b) = ''create''"
| "changeKind (WUpdateBackend b) = ''update''"
| "changeKind (WDeleteBackend i) = ''delete''"
| "changeKind (WCreateAddress i a) = ''create''"
| "changeKind (WUpdateAddress a) = ''update''"
| "changeKind (WDeleteAddress i) = ''delete''"
| "changeKind (WCreateBackendSet s) = ''create''"
| "changeKind (WUpdateBackendSet s) = ''update''"
| "changeKind (WDeleteBackendSet i) = ''delete''"
| "changeKind (WCreateSourceDefinition d) = ''create''"
| "changeKind (WUpdateSourceDefinition d) = ''update''"
| "changeKind (WDeleteSourceDefinition i) = ''delete''"
| "changeKind (WCreateRule r) = ''create''"
| "changeKind (WUpdateRule r) = ''update''"
| "changeKind (WDeleteRule i) = ''delete''"

fun entityKind :: "mutation \<Rightarrow> string" where
  "entityKind (WCreateBackend b) = ''backend''"
| "entityKind (WUpdateBackend b) = ''backend''"
| "entityKind (WDeleteBackend i) = ''backend''"
| "entityKind (WCreateAddress i a) = ''address''"
| "entityKind (WUpdateAddress a) = ''address''"
| "entityKind (WDeleteAddress i) = ''address''"
| "entityKind (WCreateBackendSet s) = ''backend_set''"
| "entityKind (WUpdateBackendSet s) = ''backend_set''"
| "entityKind (WDeleteBackendSet i) = ''backend_set''"
| "entityKind (WCreateSourceDefinition d) = ''source_definition''"
| "entityKind (WUpdateSourceDefinition d) = ''source_definition''"
| "entityKind (WDeleteSourceDefinition i) = ''source_definition''"
| "entityKind (WCreateRule r) = ''rule''"
| "entityKind (WUpdateRule r) = ''rule''"
| "entityKind (WDeleteRule i) = ''rule''"

section \<open>Notions the properties are stated with\<close>

text \<open>
  A source match, as the compiler builds one: the four bytes of the IPv4 source address are
  loaded into register 1 (\<^verbatim>\<open>Payload\<close>, network header, offset 12, length 4), and what follows
  works on these four bytes: every operand that follows (the data of a \<^verbatim>\<open>Cmp\<close>, the mask
  and the xor of a \<^verbatim>\<open>Bitwise\<close>, the two bounds of a \<^verbatim>\<open>Range\<close>) has four bytes. The kernel
  refuses a comparison whose data is empty. A source definition is lowered when the
  compiler's switch on its type returns no error and a source match.
\<close>

fun onFourBytes :: "expr \<Rightarrow> bool" where
  "onFourBytes (Cmp op r d) = (length d = 4)"
| "onFourBytes (Bitwise s d l m x) = (l = 4 \<and> length m = 4 \<and> length x = 4)"
| "onFourBytes (RangeExpr op r f t) = (length f = 4 \<and> length t = 4)"
| "onFourBytes e = False"

definition sourceMatch :: "expr list \<Rightarrow> bool" where
  "sourceMatch es =
     (case es of
        [] \<Rightarrow> False
      | e # rest \<Rightarrow>
          e = Payload 1 PayloadBaseNetworkHeader 12 4 \<and> rest \<noteq> [] \<and> list_all onFourBytes rest)"

definition lowers :: "SourceDefinition \<Rightarrow> bool" where
  "lowers s = (case sourceExpressions s of Inl err \<Rightarrow> False | Inr es \<Rightarrow> sourceMatch es)"



text \<open>The user data \<^verbatim>\<open>rule_id:<n>\<close> that \<^verbatim>\<open>ApplyRules\<close> gives the kernel rule of a rule.\<close>

definition userTag :: "Rule \<Rightarrow> string" where
  "userTag r = ''rule_id:'' @ Sprintf_d (ID r)"

text \<open>The database that answers every statement.\<close>

definition noFault :: faults where
  "noFault = (\<lambda>st. None)"

text \<open>The database that answers every statement but the insert of the log row.\<close>

definition logFault :: faults where
  "logFault = (\<lambda>st. if st = StLog then Some ''connection lost'' else None)"

text \<open>
  What a write leaves in the table of its entity: after a create or an update there is a
  row with the entity's id, after a delete there is no row with that id that is not
  soft-deleted.
\<close>

fun written :: "mutation \<Rightarrow> nat \<Rightarrow> DB \<Rightarrow> bool" where
  "written (WCreateBackend b) eid db' = list_ex (\<lambda>x. ID x = eid) (backends db')"
| "written (WUpdateBackend b) eid db' = list_ex (\<lambda>x. ID x = eid) (backends db')"
| "written (WDeleteBackend i) eid db' = (First (backends db') eid = None)"
| "written (WCreateAddress i a) eid db' = list_ex (\<lambda>x. ID x = eid) (addresses db')"
| "written (WUpdateAddress a) eid db' = list_ex (\<lambda>x. ID x = eid) (addresses db')"
| "written (WDeleteAddress i) eid db' = (First (addresses db') eid = None)"
| "written (WCreateBackendSet s) eid db' = list_ex (\<lambda>x. ID x = eid) (backend_sets db')"
| "written (WUpdateBackendSet s) eid db' = list_ex (\<lambda>x. ID x = eid) (backend_sets db')"
| "written (WDeleteBackendSet i) eid db' = (First (backend_sets db') eid = None)"
| "written (WCreateSourceDefinition d) eid db' =
     list_ex (\<lambda>x. ID x = eid) (source_definitions db')"
| "written (WUpdateSourceDefinition d) eid db' =
     list_ex (\<lambda>x. ID x = eid) (source_definitions db')"
| "written (WDeleteSourceDefinition i) eid db' = (First (source_definitions db') eid = None)"
| "written (WCreateRule r) eid db' = list_ex (\<lambda>x. ID x = eid) (rules db')"
| "written (WUpdateRule r) eid db' = list_ex (\<lambda>x. ID x = eid) (rules db')"
| "written (WDeleteRule i) eid db' = (First (rules db') eid = None)"

text \<open>
  \<open>logged\<close>: the change log of \<open>db'\<close> is that of \<open>db\<close> and one more row, with the given
  actor, change kind, entity kind and entity id. \<open>outcome\<close>: what a write may do to the
  database \<open>db\<close>: fail and leave it as it was, or succeed, with the log row inserted, exactly
  one row logged and the entity written (\<open>Q\<close>).
\<close>

definition logged :: "string \<Rightarrow> string \<Rightarrow> string \<Rightarrow> nat \<Rightarrow> DB \<Rightarrow> DB \<Rightarrow> bool" where
  "logged who ct et eid db db' =
     (\<exists>row. config_changes db' = config_changes db @ [row] \<and> ChangeType row = ct
            \<and> EntityType row = et \<and> EntityID row = eid \<and> ChangedBy row = who)"

definition outcome ::
  "faults \<Rightarrow> string \<Rightarrow> string \<Rightarrow> string \<Rightarrow> (nat \<Rightarrow> DB \<Rightarrow> bool) \<Rightarrow> DB
     \<Rightarrow> (error + nat) \<times> DB \<Rightarrow> bool" where
  "outcome fl who ct et Q db x =
     (case x of
        (Inl err, db') \<Rightarrow> db' = db
      | (Inr eid, db') \<Rightarrow> fl StLog = None \<and> logged who ct et eid db db' \<and> Q eid db')"

text \<open>An \<^verbatim>\<open>ON CONFLICT\<close> clause leaves the id of the row it meets.\<close>

definition keepsID :: "('a Model_scheme \<Rightarrow> 'a Model_scheme \<Rightarrow> 'a Model_scheme) \<Rightarrow> bool" where
  "keepsID f = (\<forall>old new. ID old = ID new \<longrightarrow> ID (f old new) = ID new)"


text \<open>
  What the saving of nested structs leaves alone: the change log, the rules, the source
  definitions and the availability log; and it takes no row out of \<^verbatim>\<open>backends\<close> and
  \<^verbatim>\<open>backend_sets\<close>.
\<close>

definition untouched :: "DB \<Rightarrow> DB \<Rightarrow> bool" where
  "untouched db db' =
     (config_changes db' = config_changes db \<and> rules db' = rules db
      \<and> source_definitions db' = source_definitions db
      \<and> availability_logs db' = availability_logs db
      \<and> (\<forall>i. list_ex (\<lambda>y. ID y = i) (backends db) \<longrightarrow> list_ex (\<lambda>y. ID y = i) (backends db'))
      \<and> (\<forall>i. list_ex (\<lambda>y. ID y = i) (backend_sets db)
             \<longrightarrow> list_ex (\<lambda>y. ID y = i) (backend_sets db')))"

text \<open>The port that two bytes in network order denote.\<close>

definition portOf :: "byte list \<Rightarrow> nat" where
  "portOf bs = (case bs of [hi, lo] \<Rightarrow> unat hi * 256 + unat lo | _ \<Rightarrow> 0)"

section \<open>A small configuration\<close>

text \<open>
  One backend with one address, one backend set, one source definition and two enabled
  rules of the same priority that both send the source to the set; the rules carry their
  source definition and their backend set as a preload leaves them.
\<close>

definition exSource :: SourceDefinition where
  "exSource = \<lparr>ID = 1, DeletedAt = False, Name = ''office'', Description = [], Type = ''ip'',
     IPAddress = ''10.1.0.1'', Subnet = [], RangeStart = [], RangeEnd = []\<rparr>"

definition exAddress :: Address where
  "exAddress = \<lparr>ID = 1, DeletedAt = False, BackendID = 1, IP = ''10.0.0.10'', Port = 80,
     Available = True, LastChecked = 0\<rparr>"

definition exBackend :: Backend where
  "exBackend = \<lparr>ID = 1, DeletedAt = False, Backend.Name = ''web'', Description = []\<rparr>"

definition exSet :: BackendSet where
  "exSet = \<lparr>ID = 1, DeletedAt = False, BackendSet.Name = ''pool'', Description = []\<rparr>"

definition exRule :: Rule where
  "exRule = \<lparr>ID = 1, DeletedAt = False, SourceDefinitionID = 1, SourceDefinition = exSource,
     DestinationPort = 80, Protocol = ''tcp'', BackendSetID = 1,
     BackendSet = BackendSetStruct exSet [BackendStruct exBackend [exAddress] []],
     Priority = 100, Enabled = True\<rparr>"

definition exDB :: DB where
  "exDB = \<lparr>backends = [exBackend], addresses = [exAddress], backend_sets = [exSet],
     backend_set_backends = [(1, 1)], source_definitions = [exSource],
     rules = [exRule, exRule\<lparr>ID := 2\<rparr>], config_changes = [], availability_logs = []\<rparr>"

text \<open>A backend set as a request may bind it, with a backend that is new.\<close>

definition exNested :: BackendSetStruct where
  "exNested =
     BackendSetStruct
       \<lparr>ID = 0, DeletedAt = False, BackendSet.Name = ''pool2'', Description = []\<rparr>
       [BackendStruct
          \<lparr>ID = 0, DeletedAt = False, Backend.Name = ''web2'', Description = []\<rparr> [] []]"

section \<open>The rule compiler: protocol, availability, order\<close>

lemma protoNum_all: "protoNum ''all'' = None"
  by (simp add: protoNum_def)

text \<open>
  C1. The claim: an enabled rule with protocol \<^verbatim>\<open>all\<close> and an available backend address is
  compiled to a kernel rule without a protocol match. The code: the protocol switch of
  \<^verbatim>\<open>generateExpressionsForRule\<close> knows \<^verbatim>\<open>tcp\<close> and \<^verbatim>\<open>udp\<close> only, so for every rule with
  protocol \<^verbatim>\<open>all\<close> it returns the error \<^verbatim>\<open>unsupported protocol: all\<close>, and \<^verbatim>\<open>ApplyRules\<close>
  skips the rule: nothing is emitted for it.
\<close>

theorem protocol_all_is_skipped:
  assumes "Protocol rule = ''all''" and "addrs (BackendSetID rule) = Some as" and "as \<noteq> []"
  shows "fst (generateExpressionsForRule rng k rule as)
           = Inl (Errorf ''unsupported protocol: all'')
         \<and> ApplyRules rng k [rule] addrs = []"
  using assms by (simp add: generateExpressionsForRule_def protoNum_all)

theorem protocol_all_is_skipped_witness:
  "fst (generateExpressionsForRule (\<lambda>n. 0) 0 (exRule\<lparr>Protocol := ''all''\<rparr>) [exAddress])
     = Inl (Errorf ''unsupported protocol: all'')
   \<and> ApplyRules (\<lambda>n. 0) 0 [exRule\<lparr>Protocol := ''all''\<rparr>] [1 \<mapsto> [exAddress]] = []"
proof -
  have p: "Protocol (exRule\<lparr>Protocol := ''all''\<rparr>) = ''all''"
    by simp
  have a: "[1 \<mapsto> [exAddress]] (BackendSetID (exRule\<lparr>Protocol := ''all''\<rparr>)) = Some [exAddress]"
    by (simp add: exRule_def)
  have n: "[exAddress] \<noteq> []"
    by simp
  show ?thesis
    by (rule protocol_all_is_skipped
          [where rule = "exRule\<lparr>Protocol := ''all''\<rparr>" and addrs = "[1 \<mapsto> [exAddress]]"
             and as = "[exAddress]", OF p a n])
qed

text \<open>
  C7. Whatever the rules, when the availability map gives every backend set of theirs no
  address (the key is missing, or its list is empty), \<^verbatim>\<open>ApplyRules\<close> emits no kernel rule.
\<close>

theorem no_addresses_no_rules:
  assumes "\<forall>r \<in> set rs. addrs (BackendSetID r) = None \<or> addrs (BackendSetID r) = Some []"
  shows "ApplyRules rng k rs addrs = []"
  using assms by (induction rs arbitrary: k) auto

theorem no_addresses_no_rules_witness:
  "ApplyRules (\<lambda>n. 0) 0 [exRule, exRule\<lparr>ID := 2, BackendSetID := 2\<rparr>] [1 \<mapsto> []] = []"
proof -
  have "\<forall>r \<in> set [exRule, exRule\<lparr>ID := 2, BackendSetID := 2\<rparr>].
          [1 \<mapsto> []] (BackendSetID r) = None
          \<or> [1 \<mapsto> ([] :: Address list)] (BackendSetID r) = Some []"
    by (simp add: exRule_def)
  then show ?thesis
    by (rule no_addresses_no_rules)
qed

text \<open>The kernel rules come in the order of the rules they are compiled from.\<close>

lemma ApplyRules_subseq:
  "subseq (map UserData (ApplyRules rng k rs addrs)) (map userTag rs)"
proof (induction rs arbitrary: k)
  case Nil
  show ?case by simp
next
  case (Cons r rs)
  show ?case
    using Cons.IH
    by (auto simp: Let_def userTag_def split: prod.splits sum.splits option.splits)
qed

lemma Enabled_preload: "Enabled (preload db r) = Enabled r"
  by (simp add: preload_def)

lemma exPreload: "preload exDB (exRule\<lparr>ID := i\<rparr>) = exRule\<lparr>ID := i\<rparr>"
  by (simp add: preload_def preloadBackendSet_def First_def exDB_def exRule_def exSource_def
        exSet_def exBackend_def exAddress_def)

lemma exRules:
  "map (preload exDB) (filter (\<lambda>r. Enabled r \<and> \<not> DeletedAt r) (rules exDB))
     = [exRule, exRule\<lparr>ID := 2\<rparr>]"
proof -
  have r: "rules exDB = [exRule, exRule\<lparr>ID := 2\<rparr>]"
    by (simp add: exDB_def)
  have e: "Enabled exRule" "\<not> DeletedAt exRule"
    by (simp_all add: exRule_def)
  have "exRule\<lparr>ID := 1\<rparr> = exRule"
    by (simp add: exRule_def)
  with exPreload [of 1] have p: "preload exDB exRule = exRule"
    by simp
  show ?thesis
    unfolding r by (simp add: e p exPreload)
qed

lemma exAnswer: "GetActiveRules exDB [exRule\<lparr>ID := 2\<rparr>, exRule]"
  unfolding GetActiveRules_def exRules by (simp add: exRule_def)

text \<open>
  C2, as the code has it. Every answer of \<^verbatim>\<open>GetActiveRules\<close> lists enabled rules only, by
  descending priority, and the kernel rules that \<^verbatim>\<open>ApplyRules\<close> emits for it keep that order
  (their user tags are a subsequence of the rules' tags). The order of rules of equal
  priority is the database's choice: the query sorts by priority alone.
\<close>

theorem active_rules_order:
  assumes "GetActiveRules db rs"
  shows "sorted_wrt (\<lambda>a b. Priority b \<le> Priority a) rs
         \<and> (\<forall>r \<in> set rs. Enabled r)
         \<and> subseq (map UserData (ApplyRules rng k rs addrs)) (map userTag rs)"
proof -
  from assms
  have m: "mset rs
             = mset (map (preload db) (filter (\<lambda>r. Enabled r \<and> \<not> DeletedAt r) (rules db)))"
    and s: "sorted_wrt (\<lambda>a b. Priority b \<le> Priority a) rs"
    by (simp_all add: GetActiveRules_def)
  from m
  have "set rs = set (map (preload db) (filter (\<lambda>r. Enabled r \<and> \<not> DeletedAt r) (rules db)))"
    by (rule mset_eq_setD)
  then have e: "\<forall>r \<in> set rs. Enabled r"
    by (auto simp: Enabled_preload)
  from s e ApplyRules_subseq show ?thesis
    by blast
qed

theorem active_rules_order_witness:
  "sorted_wrt (\<lambda>a b. Priority b \<le> Priority a) [exRule\<lparr>ID := 2\<rparr>, exRule]
   \<and> subseq
        (map UserData (ApplyRules (\<lambda>n. 0) 0 [exRule\<lparr>ID := 2\<rparr>, exRule] [1 \<mapsto> [exAddress]]))
        (map userTag [exRule\<lparr>ID := 2\<rparr>, exRule])"
  using active_rules_order [OF exAnswer, of "\<lambda>n. 0" 0 "[1 \<mapsto> [exAddress]]"]
  by blast

text \<open>
  C2, as the claim has it, fails: with rules 1 and 2 of priority 100 both, the list with
  rule 1 first and the list with rule 2 first are both answers of \<^verbatim>\<open>GetActiveRules\<close> (the
  second is one that PostgreSQL may give once rule 1 has been updated and its row rewritten
  behind that of rule 2), and for the second \<^verbatim>\<open>ApplyRules\<close> emits the kernel rule of rule 2
  first.
\<close>

theorem active_rules_order_counterexample:
  "GetActiveRules exDB [exRule, exRule\<lparr>ID := 2\<rparr>]
   \<and> GetActiveRules exDB [exRule\<lparr>ID := 2\<rparr>, exRule]
   \<and> Priority (exRule\<lparr>ID := 2\<rparr>) = Priority exRule
   \<and> ID exRule < ID (exRule\<lparr>ID := 2\<rparr>)
   \<and> map UserData (ApplyRules (\<lambda>n. 0) 0 [exRule\<lparr>ID := 2\<rparr>, exRule] [1 \<mapsto> [exAddress]])
       = [''rule_id:2'', ''rule_id:1'']"
proof -
  have "map UserData (ApplyRules (\<lambda>n. 0) 0 [exRule\<lparr>ID := 2\<rparr>, exRule] [1 \<mapsto> [exAddress]])
          = [''rule_id:2'', ''rule_id:1'']"
    unfolding exRule_def exAddress_def exSource_def by code_simp
  moreover have "GetActiveRules exDB [exRule, exRule\<lparr>ID := 2\<rparr>]"
    unfolding GetActiveRules_def exRules by (simp add: exRule_def)
  ultimately show ?thesis
    using exAnswer by (simp add: exRule_def)
qed

section \<open>Validation and lowering of source definitions\<close>





















section \<open>The store: refused deletes, the change log, availability\<close>

lemma Count_pos: "\<exists>r \<in> set tbl. P r \<and> \<not> DeletedAt r \<Longrightarrow> 0 < Count P tbl"
  by (auto simp: Count_def filter_empty_conv)

lemma First_Some_mem: "First tbl i = Some x \<Longrightarrow> x \<in> set tbl"
  unfolding First_def by (induction tbl) (simp_all split: if_splits)

lemma First_Some_ID: "First tbl i = Some x \<Longrightarrow> ID x = i"
  unfolding First_def by (induction tbl) (simp_all split: if_splits)

lemma First_Some_live: "First tbl i = Some x \<Longrightarrow> \<not> DeletedAt x"
  unfolding First_def by (induction tbl) (simp_all split: if_splits)

lemma Create_has: "list_ex (\<lambda>y. ID y = ID (fst (Create tbl x))) (snd (Create tbl x))"
  by (simp add: Create_def Let_def)

lemma Create_keeps: "list_ex (\<lambda>y. ID y = i) tbl \<Longrightarrow> list_ex (\<lambda>y. ID y = i) (snd (Create tbl x))"
  by (simp add: Create_def Let_def)

lemma list_ex_mapI: "y \<in> set tbl \<Longrightarrow> P (g y) \<Longrightarrow> list_ex P (map g tbl)"
  by (auto simp: list_ex_iff)

lemma keepsID_clauses: "keepsID doNothing" "keepsID updateAll" "keepsID updateBackendID"
  by (simp_all add: keepsID_def doNothing_def updateAll_def updateBackendID_def)

lemma Upsert_has:
  assumes "keepsID f"
  shows "list_ex (\<lambda>y. ID y = ID (fst (Upsert f tbl x))) (snd (Upsert f tbl x))"
proof (cases "ID x \<noteq> 0 \<and> list_ex (\<lambda>y. ID y = ID x) tbl")
  case True
  then obtain y where y: "y \<in> set tbl" "ID y = ID x"
    unfolding list_ex_iff by blast
  from assms y(2) have "ID (if ID y = ID x then f y x else y) = ID x"
    by (simp add: keepsID_def)
  with y(1) have "list_ex (\<lambda>z. ID z = ID x) (map (\<lambda>y. if ID y = ID x then f y x else y) tbl)"
    by (rule list_ex_mapI)
  with True show ?thesis
    by (simp add: Upsert_def)
next
  case False
  then show ?thesis
    by (auto simp: Upsert_def Create_has)
qed

lemma Upsert_keeps:
  assumes "keepsID f" and "list_ex (\<lambda>y. ID y = i) tbl"
  shows "list_ex (\<lambda>y. ID y = i) (snd (Upsert f tbl x))"
proof (cases "ID x \<noteq> 0 \<and> list_ex (\<lambda>y. ID y = ID x) tbl")
  case True
  from assms(2) obtain y where y: "y \<in> set tbl" "ID y = i"
    unfolding list_ex_iff by blast
  from assms(1) y(2) have "ID (if ID y = ID x then f y x else y) = i"
    by (simp add: keepsID_def)
  with y(1) have "list_ex (\<lambda>z. ID z = i) (map (\<lambda>y. if ID y = ID x then f y x else y) tbl)"
    by (rule list_ex_mapI)
  with True show ?thesis
    by (simp add: Upsert_def)
next
  case False
  with assms(2) show ?thesis
    by (auto simp: Upsert_def Create_keeps)
qed

lemma UpsertAll_keeps:
  assumes "keepsID f"
  shows "list_ex (\<lambda>y. ID y = i) tbl \<Longrightarrow> list_ex (\<lambda>y. ID y = i) (snd (UpsertAll f tbl xs))"
proof (induction xs arbitrary: tbl)
  case Nil
  then show ?case by simp
next
  case (Cons x xs)
  from Upsert_keeps [OF assms Cons.prems, of x]
  have "list_ex (\<lambda>y. ID y = i) (snd (UpsertAll f (snd (Upsert f tbl x)) xs))"
    by (rule Cons.IH)
  then show ?case
    by (simp add: split_def Let_def)
qed

lemma Save_has:
  assumes "ID (dflt x) = ID x"
  shows "list_ex (\<lambda>y. ID y = ID (fst (Save dflt tbl x))) (snd (Save dflt tbl x))"
proof -
  consider "ID x = 0" | "ID x \<noteq> 0" "list_ex (\<lambda>y. ID y = ID x \<and> \<not> DeletedAt y) tbl"
    | "ID x \<noteq> 0" "\<not> list_ex (\<lambda>y. ID y = ID x \<and> \<not> DeletedAt y) tbl"
    by blast
  then show ?thesis
  proof cases
    case 1
    then show ?thesis by (simp add: Save_def Create_has)
  next
    case 2
    then obtain y where y: "y \<in> set tbl" "ID y = ID x \<and> \<not> DeletedAt y"
      unfolding list_ex_iff by blast
    then have "ID (if ID y = ID x \<and> \<not> DeletedAt y then x else y) = ID x"
      by simp
    with y(1) have "list_ex (\<lambda>z. ID z = ID x)
                      (map (\<lambda>y. if ID y = ID x \<and> \<not> DeletedAt y then x else y) tbl)"
      by (rule list_ex_mapI)
    with 2 show ?thesis by (simp add: Save_def)
  next
    case 3
    then show ?thesis
      using Upsert_has [OF keepsID_clauses(2), of tbl "dflt x"] by (simp add: Save_def)
  qed
qed

lemma Save_keeps_ex:
  assumes "ID (dflt x) = ID x" and "list_ex (\<lambda>y. ID y = i) tbl"
  shows "list_ex (\<lambda>y. ID y = i) (snd (Save dflt tbl x))"
proof -
  consider "ID x = 0" | "ID x \<noteq> 0" "list_ex (\<lambda>y. ID y = ID x \<and> \<not> DeletedAt y) tbl"
    | "ID x \<noteq> 0" "\<not> list_ex (\<lambda>y. ID y = ID x \<and> \<not> DeletedAt y) tbl"
    by blast
  then show ?thesis
  proof cases
    case 1
    with assms(2) show ?thesis by (simp add: Save_def Create_keeps)
  next
    case 2
    from assms(2) obtain y where y: "y \<in> set tbl" "ID y = i"
      unfolding list_ex_iff by blast
    then have "ID (if ID y = ID x \<and> \<not> DeletedAt y then x else y) = i"
      by simp
    with y(1) have "list_ex (\<lambda>z. ID z = i)
                      (map (\<lambda>y. if ID y = ID x \<and> \<not> DeletedAt y then x else y) tbl)"
      by (rule list_ex_mapI)
    with 2 show ?thesis by (simp add: Save_def)
  next
    case 3
    then show ?thesis
      using Upsert_keeps [OF keepsID_clauses(2) assms(2), of "dflt x"] by (simp add: Save_def)
  qed
qed

lemma untouched_refl: "untouched db db"
  by (simp add: untouched_def)

lemma untouched_trans: "untouched a b \<Longrightarrow> untouched b c \<Longrightarrow> untouched a c"
  by (simp add: untouched_def)

lemma untouched_addresses: "untouched db (db\<lparr>addresses := as\<rparr>)"
  by (simp add: untouched_def)

lemma untouched_joins: "untouched db (db\<lparr>backend_set_backends := js\<rparr>)"
  by (simp add: untouched_def)

lemma untouched_backend_sets:
  "untouched db (db\<lparr>backend_sets := snd (UpsertAll doNothing (backend_sets db) xs)\<rparr>)"
  by (simp add: untouched_def UpsertAll_keeps keepsID_clauses)

lemma untouched_backends:
  "untouched db (db\<lparr>backends := snd (UpsertAll doNothing (backends db) xs)\<rparr>)"
  by (simp add: untouched_def UpsertAll_keeps keepsID_clauses)

lemma saveAssociations_untouched:
  "untouched db (snd (saveBackendsAssociations ps db))"
  "untouched db' (snd (saveBackendSetsAssociations qs db'))"
proof (induction ps db and qs db' rule: saveBackendsAssociations_saveBackendSetsAssociations.induct)
  case (1 db)
  then show ?case by (simp add: untouched_refl)
next
  case (2 p ps db)
  let ?as = "distinctElems ID []
                 (concat (map (\<lambda>(i, b). map (\<lambda>a. a\<lparr>BackendID := i, Address.Available := True\<rparr>)
                                            (Addresses b)) (p # ps)))"
  let ?db1 = "db\<lparr>addresses := snd (UpsertAll updateBackendID (addresses db) ?as)\<rparr>"
  let ?ss = "concat (map (\<lambda>(i, b). BackendSets b) (p # ps))"
  let ?u = "UpsertAll doNothing (backend_sets ?db1) (map BackendSet_row ?ss)"
  let ?db1' = "?db1\<lparr>backend_sets := snd ?u\<rparr>"
  let ?r = "saveBackendSetsAssociations
              (distinctElems (\<lambda>(i, s). ID (BackendSet_row s)) [] (zip (fst ?u) ?ss)) ?db1'"
  have "untouched ?db1' (snd ?r)"
    by (rule 2) (simp_all add: prod_eq_iff)
  moreover have "untouched db ?db1"
    by (rule untouched_addresses)
  moreover have "untouched ?db1 ?db1'"
    by (rule untouched_backend_sets)
  ultimately have "untouched db (snd ?r)"
    by (blast intro: untouched_trans)
  then have "untouched db ((snd ?r)\<lparr>backend_set_backends := js\<rparr>)" for js
    by (blast intro: untouched_trans untouched_joins)
  then show ?case
    by (simp add: Let_def split_def)
next
  case (3 db)
  then show ?case by (simp add: untouched_refl)
next
  case (4 p ps db)
  let ?bs = "concat (map (\<lambda>(i, s). Backends s) (p # ps))"
  let ?u = "UpsertAll doNothing (backends db) (map Backend_row ?bs)"
  let ?db1 = "db\<lparr>backends := snd ?u\<rparr>"
  let ?r = "saveBackendsAssociations
              (distinctElems (\<lambda>(i, b). ID (Backend_row b)) [] (zip (fst ?u) ?bs)) ?db1"
  have "untouched ?db1 (snd ?r)"
    by (rule 4) (simp_all add: prod_eq_iff)
  moreover have "untouched db ?db1"
    by (rule untouched_backends)
  ultimately have "untouched db (snd ?r)"
    by (blast intro: untouched_trans)
  then have "untouched db ((snd ?r)\<lparr>backend_set_backends := js\<rparr>)" for js
    by (blast intro: untouched_trans untouched_joins)
  then show ?case
    by (simp add: Let_def split_def)
qed

text \<open>
  The record package does not look through an update of a field that is itself a record
  with a field of the selector's name.
\<close>

lemma ID_SourceDefinition_update [simp]:
  "ID (r\<lparr>SourceDefinition := s\<rparr>) = ID r"
  by (cases r) simp

lemma untouched_log: "untouched db db' \<Longrightarrow> config_changes db' = config_changes db"
  by (simp add: untouched_def)

lemma untouched_rules: "untouched db db' \<Longrightarrow> rules db' = rules db"
  by (simp add: untouched_def)

lemma untouched_backend:
  "untouched db db' \<Longrightarrow> list_ex (\<lambda>y. ID y = i) (backends db)
     \<Longrightarrow> list_ex (\<lambda>y. ID y = i) (backends db')"
  by (simp add: untouched_def)

lemma untouched_backend_set:
  "untouched db db' \<Longrightarrow> list_ex (\<lambda>y. ID y = i) (backend_sets db)
     \<Longrightarrow> list_ex (\<lambda>y. ID y = i) (backend_sets db')"
  by (simp add: untouched_def)

lemma Create_Backend_ok:
  "config_changes (snd (Create_Backend b db)) = config_changes db"
  "list_ex (\<lambda>x. ID x = ID (fst (Create_Backend b db))) (backends (snd (Create_Backend b db)))"
proof -
  let ?c = "Create (backends db) (Backend_row b)"
  let ?tx = "db\<lparr>backends := snd ?c\<rparr>"
  let ?r = "saveBackendsAssociations [(ID (fst ?c), b)] ?tx"
  have e: "Create_Backend b db = (fst ?c, snd ?r)"
    by (simp add: Create_Backend_def split_def Let_def)
  have u: "untouched ?tx (snd ?r)"
    by (rule saveAssociations_untouched)
  from untouched_log [OF u] show "config_changes (snd (Create_Backend b db)) = config_changes db"
    by (simp add: e)
  have "list_ex (\<lambda>x. ID x = ID (fst ?c)) (backends ?tx)"
    by (simp add: Create_has)
  from untouched_backend [OF u this]
  show "list_ex (\<lambda>x. ID x = ID (fst (Create_Backend b db))) (backends (snd (Create_Backend b db)))"
    by (simp add: e)
qed

lemma Save_Backend_ok:
  "config_changes (snd (Save_Backend b db)) = config_changes db"
  "list_ex (\<lambda>x. ID x = ID (fst (Save_Backend b db))) (backends (snd (Save_Backend b db)))"
proof -
  let ?row = "Backend_row b"
  let ?live = "ID ?row = 0 \<or> list_ex (\<lambda>y. ID y = ID ?row \<and> \<not> DeletedAt y) (backends db)"
  let ?s = "Save (\<lambda>b. b) (backends db) ?row"
  let ?tx = "db\<lparr>backends := snd ?s\<rparr>"
  let ?r = "saveBackendsAssociations [(ID (fst ?s), b)] ?tx"
  let ?r' = "saveBackendsAssociations [(ID ?row, b)] db"
  let ?u = "Upsert updateAll (backends (snd ?r')) ?row"
  have e: "Save_Backend b db
             = (if ?live then (fst ?s, snd ?r) else (fst ?u, (snd ?r')\<lparr>backends := snd ?u\<rparr>))"
    by (simp add: Save_Backend_def split_def Let_def)
  have u: "untouched ?tx (snd ?r)" and u': "untouched db (snd ?r')"
    by (rule saveAssociations_untouched)+
  from untouched_log [OF u] untouched_log [OF u']
  show "config_changes (snd (Save_Backend b db)) = config_changes db"
    by (simp add: e)
  have "list_ex (\<lambda>x. ID x = ID (fst ?s)) (backends ?tx)"
    by (simp add: Save_has)
  from untouched_backend [OF u this]
  have 1: "list_ex (\<lambda>x. ID x = ID (fst ?s)) (backends (snd ?r))" .
  have 2: "list_ex (\<lambda>x. ID x = ID (fst ?u)) (snd ?u)"
    by (rule Upsert_has) (rule keepsID_clauses)
  from 1 2
  show "list_ex (\<lambda>x. ID x = ID (fst (Save_Backend b db))) (backends (snd (Save_Backend b db)))"
    by (simp add: e)
qed

lemma Create_BackendSet_ok:
  "config_changes (snd (snd (Create_BackendSet s db))) = config_changes db"
  "list_ex (\<lambda>x. ID x = ID (fst (Create_BackendSet s db)))
     (backend_sets (snd (snd (Create_BackendSet s db))))"
proof -
  let ?c = "Create (backend_sets db) (BackendSet_row s)"
  let ?tx = "db\<lparr>backend_sets := snd ?c\<rparr>"
  let ?r = "saveBackendSetsAssociations [(ID (fst ?c), s)] ?tx"
  have e: "Create_BackendSet s db = (fst ?c, fst ?r, snd ?r)"
    by (simp add: Create_BackendSet_def split_def Let_def)
  have u: "untouched ?tx (snd ?r)"
    by (rule saveAssociations_untouched)
  from untouched_log [OF u]
  show "config_changes (snd (snd (Create_BackendSet s db))) = config_changes db"
    by (simp add: e)
  have "list_ex (\<lambda>x. ID x = ID (fst ?c)) (backend_sets ?tx)"
    by (simp add: Create_has)
  from untouched_backend_set [OF u this]
  show "list_ex (\<lambda>x. ID x = ID (fst (Create_BackendSet s db)))
     (backend_sets (snd (snd (Create_BackendSet s db))))"
    by (simp add: e)
qed

lemma saveBelongsTo_ok:
  "config_changes (snd (saveBelongsTo r db)) = config_changes db"
  "rules (snd (saveBelongsTo r db)) = rules db"
  "DestinationPort (fst (saveBelongsTo r db)) = DestinationPort r"
  "ID (fst (saveBelongsTo r db)) = ID r"
proof -
  let ?sd = "Upsert doNothing (source_definitions db) (SourceDefinition r)"
  let ?z = "SourceDefinition r = zeroSourceDefinition"
  let ?r1 = "if ?z then r else r\<lparr>SourceDefinitionID := ID (fst ?sd), SourceDefinition := fst ?sd\<rparr>"
  let ?tx1 = "if ?z then db else db\<lparr>source_definitions := snd ?sd\<rparr>"
  let ?bs = "Upsert doNothing (backend_sets ?tx1) (BackendSet_row (BackendSet ?r1))"
  let ?tx1' = "?tx1\<lparr>backend_sets := snd ?bs\<rparr>"
  let ?a = "saveBackendSetsAssociations [(ID (fst ?bs), BackendSet ?r1)] ?tx1'"
  have e: "saveBelongsTo r db
             = (if BackendSet ?r1 = zeroBackendSet then (?r1, ?tx1)
                else (?r1\<lparr>BackendSetID := ID (fst ?bs),
                          BackendSet := BackendSetStruct (fst ?bs) (Backends (BackendSet ?r1))\<rparr>,
                      snd ?a))"
    by (simp add: saveBelongsTo_def split_def Let_def)
  have u: "untouched ?tx1' (snd ?a)"
    by (rule saveAssociations_untouched)
  have c1: "config_changes ?tx1 = config_changes db" and r1: "rules ?tx1 = rules db"
    by simp_all
  from untouched_log [OF u] c1
  show "config_changes (snd (saveBelongsTo r db)) = config_changes db"
    by (simp add: e)
  from untouched_rules [OF u] r1
  show "rules (snd (saveBelongsTo r db)) = rules db"
    by (simp add: e)
  show "DestinationPort (fst (saveBelongsTo r db)) = DestinationPort r"
    by (simp add: e)
  show "ID (fst (saveBelongsTo r db)) = ID r"
    by (simp add: e)
qed

lemma Create_Rule_ok:
  "config_changes (snd (Create_Rule r db)) = config_changes db"
  "rules (snd (Create_Rule r db)) = rules db @ [fst (Create_Rule r db)]"
  "DestinationPort (fst (Create_Rule r db)) = DestinationPort r"
  using saveBelongsTo_ok [of r db]
  by (simp_all add: Create_Rule_def split_def Let_def Create_def)

lemma Save_Rule_ok:
  "config_changes (snd (Save_Rule r db)) = config_changes db"
  "list_ex (\<lambda>x. ID x = ID (fst (Save_Rule r db))) (rules (snd (Save_Rule r db)))"
proof -
  let ?b = "saveBelongsTo r db"
  let ?s = "Save (\<lambda>r. r\<lparr>Enabled := True\<rparr>) (rules (snd ?b)) (fst ?b)"
  have e: "Save_Rule r db = (fst ?s, (snd ?b)\<lparr>rules := snd ?s\<rparr>)"
    by (simp add: Save_Rule_def split_def Let_def)
  show "config_changes (snd (Save_Rule r db)) = config_changes db"
    by (simp add: e saveBelongsTo_ok)
  have "list_ex (\<lambda>x. ID x = ID (fst ?s)) (snd ?s)"
    by (rule Save_has) simp
  then show "list_ex (\<lambda>x. ID x = ID (fst (Save_Rule r db))) (rules (snd (Save_Rule r db)))"
    by (simp add: e)
qed

lemma Delete_First: "First (Delete (\<lambda>x. ID x = i) tbl) i = None"
  unfolding First_def Delete_def by (induction tbl) simp_all

lemma logAndCommit_result:
  assumes "logAndCommit fl ct et eid d who tx db r = (res, db')"
  shows "(res = Inr r \<and> fl StLog = None
          \<and> db' = tx\<lparr>config_changes := config_changes tx @
                [\<lparr>ID = nextID (config_changes tx), DeletedAt = False, ChangeType = ct,
                  EntityType = et, EntityID = eid, Description = d, ChangedBy = who\<rparr>]\<rparr>)
         \<or> (isl res \<and> db' = db)"
  using assms
  by (auto simp: logAndCommit_def logChange_def Commit_def Create_def Let_def
           split: option.splits sum.splits)

lemma outcome_logAndCommit:
  assumes c: "config_changes tx = config_changes db"
    and q: "\<And>cc. Q (f r) (tx\<lparr>config_changes := cc\<rparr>)"
  shows "outcome fl who ct et Q db (entityID f (logAndCommit fl ct et (f r) d who tx db r))"
proof -
  obtain res db' where e: "logAndCommit fl ct et (f r) d who tx db r = (res, db')"
    by (cases "logAndCommit fl ct et (f r) d who tx db r")
  from logAndCommit_result [OF e] show ?thesis
  proof (elim disjE conjE)
    assume ok: "res = Inr r" "fl StLog = None"
      "db' = tx\<lparr>config_changes := config_changes tx @
                [\<lparr>ID = nextID (config_changes tx), DeletedAt = False, ChangeType = ct,
                  EntityType = et, EntityID = f r, Description = d, ChangedBy = who\<rparr>]\<rparr>"
    have "logged who ct et (f r) db db'"
      unfolding logged_def ok(3) by (simp add: c)
    moreover have "Q (f r) db'"
      unfolding ok(3) by (rule q)
    ultimately show ?thesis
      unfolding e by (simp add: outcome_def entityID_def ok(1) ok(2))
  next
    assume failed: "isl res" "db' = db"
    then obtain err where "res = Inl err"
      by (cases res) simp_all
    with failed show ?thesis
      unfolding e by (simp add: outcome_def entityID_def)
  qed
qed

lemma outcome_attempt:
  assumes "fl st = None \<Longrightarrow> outcome fl who ct et Q db (entityID f rest)"
  shows "outcome fl who ct et Q db (entityID f (attempt fl st db rest))"
  using assms by (cases "fl st") (auto simp: attempt_def entityID_def outcome_def)

lemma outcome_error: "outcome fl who ct et Q db (entityID f (Inl err, db))"
  by (simp add: outcome_def entityID_def)


lemma outcome_logAndCommit':
  assumes "f r = eid" and "config_changes tx = config_changes db"
    and "\<And>cc. Q eid (tx\<lparr>config_changes := cc\<rparr>)"
  shows "outcome fl who ct et Q db (entityID f (logAndCommit fl ct et eid d who tx db r))"
  using outcome_logAndCommit [of tx db Q f r fl who ct et d] assms by simp

lemma outcome_run: "outcome fl who (changeKind m) (entityKind m) (written m) db (run fl who m db)"
proof (cases m)
  case (WCreateBackend b)
  show ?thesis unfolding WCreateBackend run.simps changeKind.simps entityKind.simps CreateBackend_def
    apply (rule outcome_attempt)
    apply (simp only: Let_def split_def)
    apply (rule outcome_logAndCommit')
      apply simp
     apply (rule Create_Backend_ok)
    apply (simp add: Create_Backend_ok)
    done
next
  case (WUpdateBackend b)
  show ?thesis unfolding WUpdateBackend run.simps changeKind.simps entityKind.simps UpdateBackend_def
    apply (rule outcome_attempt)
    apply (simp only: Let_def split_def)
    apply (rule outcome_logAndCommit')
      apply simp
     apply (rule Save_Backend_ok)
    apply (simp add: Save_Backend_ok)
    done
next
  case (WDeleteBackend i)
  show ?thesis unfolding WDeleteBackend run.simps changeKind.simps entityKind.simps DeleteBackend_def
    apply (rule outcome_attempt)
    apply (cases "First (backends db) i")
     apply (simp add: outcome_error)
    apply (simp add: Let_def)
    apply (rule outcome_attempt)
    apply (rule outcome_attempt)
    apply (rule outcome_attempt)
    apply (rule outcome_logAndCommit [where f = "\<lambda>u. i" and r = "()"])
     apply simp
    apply (drule First_Some_ID)
    apply (simp add: Delete_First)
    done
next
  case (WCreateAddress i a)
  show ?thesis unfolding WCreateAddress run.simps changeKind.simps entityKind.simps CreateAddress_def Let_def
    apply (rule outcome_attempt)
    apply (simp only: Let_def split_def)
    apply (rule outcome_logAndCommit)
     apply simp
    apply (simp add: Create_has)
    done
next
  case (WUpdateAddress a)
  show ?thesis unfolding WUpdateAddress run.simps changeKind.simps entityKind.simps UpdateAddress_def
    apply (rule outcome_attempt)
    apply (simp only: Let_def split_def)
    apply (rule outcome_logAndCommit)
     apply simp
    apply (simp add: Save_has)
    done
next
  case (WDeleteAddress i)
  show ?thesis unfolding WDeleteAddress run.simps changeKind.simps entityKind.simps DeleteAddress_def
    apply (rule outcome_attempt)
    apply (cases "First (addresses db) i")
     apply (simp add: outcome_error)
    apply (simp add: Let_def)
    apply (rule outcome_attempt)
    apply (rule outcome_logAndCommit [where f = "\<lambda>u. i" and r = "()"])
     apply simp
    apply (drule First_Some_ID)
    apply (simp add: Delete_First)
    done
next
  case (WCreateBackendSet s)
  show ?thesis unfolding WCreateBackendSet run.simps changeKind.simps entityKind.simps CreateBackendSet_def
    apply (rule outcome_attempt)
    apply (simp only: Let_def split_def)
    apply (cases "0 < length (Backends s)")
     apply (simp only: if_True)
     apply (rule outcome_attempt)
     apply (rule outcome_logAndCommit')
       apply simp
      apply (simp add: Create_BackendSet_ok)
     apply (simp add: Create_BackendSet_ok)
    apply (simp only: if_False)
    apply (rule outcome_logAndCommit')
      apply simp
     apply (simp add: Create_BackendSet_ok)
    apply (simp add: Create_BackendSet_ok)
    done
next
  case (WUpdateBackendSet s)
  show ?thesis unfolding WUpdateBackendSet run.simps changeKind.simps entityKind.simps UpdateBackendSet_def
    apply (cases "ID (BackendSet_row s) = 0")
     apply (simp add: outcome_error)
    apply (simp only: if_False)
    apply (rule outcome_attempt)
    apply (simp only: Let_def split_def)
    apply (rule outcome_attempt)
    apply (rule outcome_logAndCommit')
      apply simp
     apply simp
    apply (simp add: Save_has)
    done
next
  case (WDeleteBackendSet i)
  show ?thesis unfolding WDeleteBackendSet run.simps changeKind.simps entityKind.simps DeleteBackendSet_def
    apply (rule outcome_attempt)
    apply (cases "First (backend_sets db) i")
     apply (simp add: outcome_error)
    apply simp
    apply (rule outcome_attempt)
    apply (simp add: Let_def outcome_error)
    apply (intro impI)
    apply (rule outcome_attempt)
    apply (rule outcome_attempt)
    apply (rule outcome_logAndCommit [where f = "\<lambda>u. i" and r = "()"])
     apply simp
    apply (drule First_Some_ID)
    apply (simp add: Delete_First)
    done
next
  case (WCreateSourceDefinition d)
  show ?thesis unfolding WCreateSourceDefinition run.simps changeKind.simps entityKind.simps CreateSourceDefinition_def
    apply (cases "Validate d")
     apply simp
     apply (rule outcome_attempt)
     apply (simp only: Let_def split_def)
     apply (rule outcome_logAndCommit)
      apply simp
     apply (simp add: Create_has)
    apply (simp add: outcome_error)
    done
next
  case (WUpdateSourceDefinition d)
  show ?thesis unfolding WUpdateSourceDefinition run.simps changeKind.simps entityKind.simps UpdateSourceDefinition_def
    apply (cases "Validate d")
     apply simp
     apply (rule outcome_attempt)
     apply (simp only: Let_def split_def)
     apply (rule outcome_logAndCommit)
      apply simp
     apply (simp add: Save_has)
    apply (simp add: outcome_error)
    done
next
  case (WDeleteSourceDefinition i)
  show ?thesis unfolding WDeleteSourceDefinition run.simps changeKind.simps entityKind.simps DeleteSourceDefinition_def
    apply (rule outcome_attempt)
    apply (cases "First (source_definitions db) i")
     apply (simp add: outcome_error)
    apply simp
    apply (rule outcome_attempt)
    apply (simp add: Let_def outcome_error)
    apply (intro impI)
    apply (rule outcome_attempt)
    apply (rule outcome_logAndCommit [where f = "\<lambda>u. i" and r = "()"])
     apply simp
    apply (drule First_Some_ID)
    apply (simp add: Delete_First)
    done
next
  case (WCreateRule r)
  show ?thesis unfolding WCreateRule run.simps changeKind.simps entityKind.simps CreateRule_def
    apply (rule outcome_attempt)
    apply (simp only: Let_def split_def)
    apply (rule outcome_logAndCommit)
     apply (rule Create_Rule_ok)
    apply (simp add: Create_Rule_ok)
    done
next
  case (WUpdateRule r)
  show ?thesis unfolding WUpdateRule run.simps changeKind.simps entityKind.simps UpdateRule_def
    apply (rule outcome_attempt)
    apply (simp only: Let_def split_def)
    apply (rule outcome_logAndCommit)
     apply (rule Save_Rule_ok)
    apply (simp add: Save_Rule_ok)
    done
next
  case (WDeleteRule i)
  show ?thesis unfolding WDeleteRule run.simps changeKind.simps entityKind.simps DeleteRule_def
    apply (rule outcome_attempt)
    apply (cases "First (rules db) i")
     apply (simp add: outcome_error)
    apply (simp add: Let_def)
    apply (rule outcome_attempt)
    apply (rule outcome_logAndCommit [where f = "\<lambda>u. i" and r = "()"])
     apply simp
    apply (drule First_Some_ID)
    apply (simp add: Delete_First)
    done
qed

text \<open>
  C8, as the code has it. The change log is kept by call, not by row: every call of one of
  the fifteen writes of the store that succeeds has appended exactly one row to the change
  log, carrying the call's change kind, the entity kind, the id of the entity the call is
  for and the actor, and has left that entity written in its table; a call that returns an
  error leaves the database as it was; and a call whose insert of the log row fails returns
  an error. Whatever else the call has written (rows of nested structs, the addresses and
  memberships that go with a deleted backend) is in the same transaction and has no row of
  its own in the change log.
\<close>

theorem every_write_logged_once:
  assumes "run fl who m db = (res, db')"
  shows "(\<forall>eid. res = Inr eid \<longrightarrow>
            (\<exists>row. config_changes db' = config_changes db @ [row]
                   \<and> ChangeType row = changeKind m \<and> EntityType row = entityKind m
                   \<and> EntityID row = eid \<and> ChangedBy row = who)
            \<and> written m eid db')
         \<and> (isl res \<longrightarrow> db' = db)
         \<and> (fl StLog \<noteq> None \<longrightarrow> isl res)"
proof (cases res)
  case (Inl err)
  with outcome_run [of fl who m db] assms have "db' = db"
    by (simp add: outcome_def)
  with Inl show ?thesis
    by simp
next
  case (Inr eid)
  with outcome_run [of fl who m db] assms
  have "fl StLog = None" and "logged who (changeKind m) (entityKind m) eid db db'"
    and "written m eid db'"
    by (simp_all add: outcome_def)
  then show ?thesis
    using Inr unfolding logged_def by simp
qed

lemma exDeleteRule:
  "fst (run noFault ''10.9.9.9'' (WDeleteRule 1) exDB) = Inr 1"
  by (simp add: entityID_def DeleteRule_def attempt_def noFault_def exDB_def exRule_def First_def
        logAndCommit_def logChange_def Commit_def)

theorem every_write_logged_once_witness:
  "(\<exists>row. config_changes (snd (run noFault ''10.9.9.9'' (WDeleteRule 1) exDB))
            = config_changes exDB @ [row]
          \<and> ChangeType row = ''delete'' \<and> EntityType row = ''rule'' \<and> EntityID row = 1
          \<and> ChangedBy row = ''10.9.9.9'')
   \<and> First (rules (snd (run noFault ''10.9.9.9'' (WDeleteRule 1) exDB))) 1 = None"
proof -
  have "run noFault ''10.9.9.9'' (WDeleteRule 1) exDB
          = (Inr 1, snd (run noFault ''10.9.9.9'' (WDeleteRule 1) exDB))"
    using exDeleteRule by (simp add: prod_eq_iff)
  from every_write_logged_once [OF this] show ?thesis
    by simp
qed

lemma exCascade:
  "run noFault ''10.9.9.9'' (WDeleteBackend 1) exDB
     = (Inr 1,
        exDB\<lparr>backends := [exBackend\<lparr>DeletedAt := True\<rparr>],
             addresses := [exAddress\<lparr>DeletedAt := True\<rparr>],
             backend_set_backends := [],
             config_changes :=
               [\<lparr>ID = 1, DeletedAt = False, ChangeType = ''delete'', EntityType = ''backend'',
                 EntityID = 1, Description = ''Deleted backend web'',
                 ChangedBy = ''10.9.9.9''\<rparr>]\<rparr>)"
  by (simp add: entityID_def DeleteBackend_def attempt_def noFault_def First_def Delete_def
        logAndCommit_def logChange_def Commit_def Create_def nextID_def Let_def
        exDB_def exBackend_def exAddress_def)

lemma exNestedCreate:
  "run noFault ''10.9.9.9'' (WCreateBackendSet exNested) exDB
     = (Inr 2,
        exDB\<lparr>backends :=
               [exBackend,
                \<lparr>ID = 2, DeletedAt = False, Backend.Name = ''web2'', Description = []\<rparr>],
             backend_sets :=
               [exSet,
                \<lparr>ID = 2, DeletedAt = False, BackendSet.Name = ''pool2'', Description = []\<rparr>],
             backend_set_backends := [(1, 1), (2, 2)],
             config_changes :=
               [\<lparr>ID = 1, DeletedAt = False, ChangeType = ''create'',
                 EntityType = ''backend_set'', EntityID = 2,
                 Description = ''Created backend set pool2'', ChangedBy = ''10.9.9.9''\<rparr>]\<rparr>)"
  by (simp add: entityID_def CreateBackendSet_def Create_BackendSet_def attempt_def noFault_def
        Upsert_def doNothing_def insertJoins_def replaceBackends_def
        logAndCommit_def logChange_def Commit_def Create_def nextID_def Let_def
        exNested_def exDB_def exBackend_def exSet_def exAddress_def)

text \<open>
  C8, as the claim has it, fails: not every create, update or delete of an entity through
  the store has a row in the change log. \<^verbatim>\<open>DeleteBackend\<close> of backend 1 succeeds and
  deletes address 1 with it; \<^verbatim>\<open>CreateBackendSet\<close> of a set that carries a new backend
  succeeds and creates backend 2 with it. In both cases the change log holds the one row of
  the call, for the backend and for the backend set; it has no row for the address deleted
  and none for the backend created.
\<close>

theorem every_write_logged_once_counterexample:
  "fst (run noFault ''10.9.9.9'' (WDeleteBackend 1) exDB) = Inr 1
   \<and> First (addresses exDB) 1 = Some exAddress
   \<and> addresses (snd (run noFault ''10.9.9.9'' (WDeleteBackend 1) exDB))
       = [exAddress\<lparr>DeletedAt := True\<rparr>]
   \<and> config_changes (snd (run noFault ''10.9.9.9'' (WDeleteBackend 1) exDB))
       = [\<lparr>ID = 1, DeletedAt = False, ChangeType = ''delete'', EntityType = ''backend'',
           EntityID = 1, Description = ''Deleted backend web'', ChangedBy = ''10.9.9.9''\<rparr>]
   \<and> fst (run noFault ''10.9.9.9'' (WCreateBackendSet exNested) exDB) = Inr 2
   \<and> backends exDB = [exBackend]
   \<and> backends (snd (run noFault ''10.9.9.9'' (WCreateBackendSet exNested) exDB))
       = [exBackend, \<lparr>ID = 2, DeletedAt = False, Backend.Name = ''web2'', Description = []\<rparr>]
   \<and> config_changes (snd (run noFault ''10.9.9.9'' (WCreateBackendSet exNested) exDB))
       = [\<lparr>ID = 1, DeletedAt = False, ChangeType = ''create'', EntityType = ''backend_set'',
           EntityID = 2, Description = ''Created backend set pool2'',
           ChangedBy = ''10.9.9.9''\<rparr>]"
  unfolding exCascade exNestedCreate
  by (simp add: First_def exDB_def exAddress_def)

subsection \<open>Deleting what a rule refers to\<close>

lemma DeleteBackendSet_in_use:
  assumes "fl StFirst = None" and "fl StCount = None"
    and "First (backend_sets db) i \<noteq> None"
    and "\<exists>r \<in> set (rules db). BackendSetID r = i \<and> \<not> DeletedAt r"
  shows "DeleteBackendSet fl i who db =
           (Inl (Errorf (''cannot delete backend set: it is used by ''
                         @ Sprintf_d (Count (\<lambda>r. BackendSetID r = i) (rules db))
                         @ '' rules'')), db)"
  using assms Count_pos [of "rules db" "\<lambda>r. BackendSetID r = i"]
  by (auto simp: DeleteBackendSet_def attempt_def Let_def)

lemma DeleteSourceDefinition_in_use:
  assumes "fl StFirst = None" and "fl StCount = None"
    and "First (source_definitions db) i \<noteq> None"
    and "\<exists>r \<in> set (rules db). SourceDefinitionID r = i \<and> \<not> DeletedAt r"
  shows "DeleteSourceDefinition fl i who db =
           (Inl (Errorf (''cannot delete source definition: it is used by ''
                         @ Sprintf_d (Count (\<lambda>r. SourceDefinitionID r = i) (rules db))
                         @ '' rules'')), db)"
  using assms Count_pos [of "rules db" "\<lambda>r. SourceDefinitionID r = i"]
  by (auto simp: DeleteSourceDefinition_def attempt_def Let_def)

lemma deleteBackendSet_refused:
  assumes "ParseUint32 p = Some i"
    and "fl StFirst = None" and "fl StCount = None"
    and "First (backend_sets db) i \<noteq> None"
    and "\<exists>r \<in> set (rules db). BackendSetID r = i \<and> \<not> DeletedAt r"
  shows "deleteBackendSet fl p ip db =
           (\<lparr>status = 500,
             body = ErrorJSON (''cannot delete backend set: it is used by ''
                      @ Sprintf_d (Count (\<lambda>r. BackendSetID r = i) (rules db))
                      @ '' rules'')\<rparr>, db)"
  using assms DeleteBackendSet_in_use [of fl db i ip]
  by (simp add: deleteBackendSet_def)

lemma ParseUint32_1: "ParseUint32 ''1'' = Some 1"
  by (simp add: ParseUint32_def isDigit_def digitVal_def)

lemma Sprintf_d_2: "Sprintf_d 2 = ''2''"
  by code_simp

lemma noFault_reads: "noFault StFirst = None" "noFault StCount = None"
  by (simp_all add: noFault_def)

lemma exSet_found: "First (backend_sets exDB) 1 \<noteq> None"
  by (simp add: First_def exDB_def exSet_def)

lemma exSource_found: "First (source_definitions exDB) 1 \<noteq> None"
  by (simp add: First_def exDB_def exSource_def)

lemma exSet_used: "\<exists>r \<in> set (rules exDB). BackendSetID r = 1 \<and> \<not> DeletedAt r"
  by (simp add: exDB_def exRule_def)

lemma exSource_used: "\<exists>r \<in> set (rules exDB). SourceDefinitionID r = 1 \<and> \<not> DeletedAt r"
  by (simp add: exDB_def exRule_def)

lemma exSet_count: "Count (\<lambda>r. BackendSetID r = 1) (rules exDB) = 2"
  by (simp add: Count_def exDB_def exRule_def)

lemma exSource_count: "Count (\<lambda>r. SourceDefinitionID r = 1) (rules exDB) = 2"
  by (simp add: Count_def exDB_def exRule_def)

text \<open>
  C4. When a backend set, or a source definition, is stored and some rule that is not
  deleted refers to it (enabled or not: the count does not look at \<^verbatim>\<open>enabled\<close>), and the
  database answers the two reads, the store's delete returns the in-use error, which names
  the number of referring rules, and the database is exactly as before.
\<close>

theorem delete_in_use_is_refused:
  "(fl StFirst = None \<and> fl StCount = None \<and> First (backend_sets db) i \<noteq> None
      \<and> (\<exists>r \<in> set (rules db). BackendSetID r = i \<and> \<not> DeletedAt r)
    \<longrightarrow> DeleteBackendSet fl i who db =
          (Inl (Errorf (''cannot delete backend set: it is used by ''
                        @ Sprintf_d (Count (\<lambda>r. BackendSetID r = i) (rules db))
                        @ '' rules'')), db))
   \<and> (fl StFirst = None \<and> fl StCount = None \<and> First (source_definitions db) j \<noteq> None
      \<and> (\<exists>r \<in> set (rules db). SourceDefinitionID r = j \<and> \<not> DeletedAt r)
    \<longrightarrow> DeleteSourceDefinition fl j who db =
          (Inl (Errorf (''cannot delete source definition: it is used by ''
                        @ Sprintf_d (Count (\<lambda>r. SourceDefinitionID r = j) (rules db))
                        @ '' rules'')), db))"
  using DeleteBackendSet_in_use DeleteSourceDefinition_in_use by blast

theorem delete_in_use_is_refused_witness:
  "DeleteBackendSet noFault 1 ''10.9.9.9'' (exDB\<lparr>rules := [exRule\<lparr>Enabled := False\<rparr>]\<rparr>) =
     (Inl (Errorf ''cannot delete backend set: it is used by 1 rules''),
      exDB\<lparr>rules := [exRule\<lparr>Enabled := False\<rparr>]\<rparr>)
   \<and> DeleteSourceDefinition noFault 1 ''10.9.9.9'' exDB =
     (Inl (Errorf ''cannot delete source definition: it is used by 2 rules''), exDB)"
proof -
  let ?db = "exDB\<lparr>rules := [exRule\<lparr>Enabled := False\<rparr>]\<rparr>"
  have f: "First (backend_sets ?db) 1 \<noteq> None"
    by (simp add: First_def exDB_def exSet_def)
  have u: "\<exists>r \<in> set (rules ?db). BackendSetID r = 1 \<and> \<not> DeletedAt r"
    by (simp add: exRule_def)
  have c: "Count (\<lambda>r. BackendSetID r = 1) (rules ?db) = 1"
    by (simp add: Count_def exRule_def)
  have s1: "Sprintf_d 1 = ''1''"
    by code_simp
  from delete_in_use_is_refused [of noFault ?db 1 "''10.9.9.9''" 1] noFault_reads f u
  have a: "DeleteBackendSet noFault 1 ''10.9.9.9'' ?db =
          (Inl (Errorf (''cannot delete backend set: it is used by ''
                        @ Sprintf_d (Count (\<lambda>r. BackendSetID r = 1) (rules ?db))
                        @ '' rules'')), ?db)"
    by blast
  from delete_in_use_is_refused [of noFault exDB 1 "''10.9.9.9''" 1]
    noFault_reads exSource_found exSource_used
  have b: "DeleteSourceDefinition noFault 1 ''10.9.9.9'' exDB =
          (Inl (Errorf (''cannot delete source definition: it is used by ''
                        @ Sprintf_d (Count (\<lambda>r. SourceDefinitionID r = 1) (rules exDB))
                        @ '' rules'')), exDB)"
    by blast
  from a b show ?thesis
    unfolding c exSource_count s1 Sprintf_d_2 by simp
qed

text \<open>
  C3, as the code has it. For a stored backend set that some rule refers to,
  \<^verbatim>\<open>DELETE /api/backend-sets/:id\<close> answers with status 500 (the handler maps every error of
  the store to it) and the message that names the number of referring rules, and the
  database is as before.
\<close>

theorem deleteBackendSet_in_use:
  assumes "ParseUint32 p = Some i"
    and "fl StFirst = None" and "fl StCount = None"
    and "First (backend_sets db) i \<noteq> None"
    and "\<exists>r \<in> set (rules db). BackendSetID r = i \<and> \<not> DeletedAt r"
  shows "deleteBackendSet fl p ip db =
           (\<lparr>status = 500,
             body = ErrorJSON (''cannot delete backend set: it is used by ''
                      @ Sprintf_d (Count (\<lambda>r. BackendSetID r = i) (rules db))
                      @ '' rules'')\<rparr>, db)"
  using assms by (rule deleteBackendSet_refused)

theorem deleteBackendSet_in_use_witness:
  "deleteBackendSet noFault ''1'' ''10.9.9.9'' exDB =
     (\<lparr>status = 500, body = ErrorJSON ''cannot delete backend set: it is used by 2 rules''\<rparr>,
      exDB)"
proof -
  have "deleteBackendSet noFault ''1'' ''10.9.9.9'' exDB =
          (\<lparr>status = 500,
            body = ErrorJSON (''cannot delete backend set: it is used by ''
                     @ Sprintf_d (Count (\<lambda>r. BackendSetID r = 1) (rules exDB))
                     @ '' rules'')\<rparr>, exDB)"
    by (rule deleteBackendSet_in_use [OF ParseUint32_1 noFault_reads exSet_found exSet_used])
  then show ?thesis
    unfolding exSet_count Sprintf_d_2 by simp
qed

text \<open>
  C3, as the claim has it, fails: in the small configuration, where two rules refer to
  backend set 1, the request answers with status 500, not 400.
\<close>

theorem deleteBackendSet_in_use_counterexample:
  "status (fst (deleteBackendSet noFault ''1'' ''10.9.9.9'' exDB)) = 500
   \<and> status (fst (deleteBackendSet noFault ''1'' ''10.9.9.9'' exDB)) \<noteq> 400
   \<and> body (fst (deleteBackendSet noFault ''1'' ''10.9.9.9'' exDB))
       = ErrorJSON ''cannot delete backend set: it is used by 2 rules''"
proof -
  have "deleteBackendSet noFault ''1'' ''10.9.9.9'' exDB =
          (\<lparr>status = 500,
            body = ErrorJSON (''cannot delete backend set: it is used by ''
                     @ Sprintf_d (Count (\<lambda>r. BackendSetID r = 1) (rules exDB))
                     @ '' rules'')\<rparr>, exDB)"
    by (rule deleteBackendSet_refused [OF ParseUint32_1 noFault_reads exSet_found exSet_used])
  then show ?thesis
    unfolding exSet_count Sprintf_d_2 by simp
qed

subsection \<open>Recording an availability transition\<close>

text \<open>
  C5. The claim: the update of the address and the insert of the log row are one atomic
  unit. The code: \<^verbatim>\<open>LogAvailabilityChange\<close> begins no transaction. When the update succeeds
  and the insert of the log row fails, the function returns the error, the address keeps
  its new flag and time, and no log row exists.
\<close>

theorem LogAvailabilityChange_not_atomic:
  assumes "fl StWrite = None" and "fl StLog = Some msg"
  shows "LogAvailabilityChange fl now now' i available checkError db =
           (Inl (ErrDriver msg),
            db\<lparr>addresses :=
                 map (\<lambda>a. if ID a = i \<and> \<not> DeletedAt a
                           then a\<lparr>Address.Available := available, LastChecked := now'\<rparr>
                           else a) (addresses db)\<rparr>)"
  using assms by (simp add: LogAvailabilityChange_def Let_def)

theorem LogAvailabilityChange_not_atomic_witness:
  "fst (LogAvailabilityChange logFault 7 7 1 False ''dial tcp 10.0.0.10:80: i/o timeout'' exDB)
     = Inl (ErrDriver ''connection lost'')
   \<and> addresses (snd (LogAvailabilityChange logFault 7 7 1 False
                        ''dial tcp 10.0.0.10:80: i/o timeout'' exDB))
       = [exAddress\<lparr>Address.Available := False, LastChecked := 7\<rparr>]
   \<and> availability_logs (snd (LogAvailabilityChange logFault 7 7 1 False
                        ''dial tcp 10.0.0.10:80: i/o timeout'' exDB)) = []"
proof -
  have w: "logFault StWrite = None" and l: "logFault StLog = Some ''connection lost''"
    by (simp_all add: logFault_def)
  show ?thesis
    unfolding LogAvailabilityChange_not_atomic [OF w l]
    by (simp add: exDB_def exAddress_def)
qed

section \<open>The handlers: rules and addresses\<close>

lemma createRule_rejects:
  "SourceDefinitionID rule = 0 \<or> BackendSetID rule = 0 \<Longrightarrow>
     status (fst (createRule fl (Inr rule) ip db)) = 400 \<and> snd (createRule fl (Inr rule) ip db) = db"
  by (auto simp: createRule_def)

lemma updateRule_rejects:
  "SourceDefinitionID rule = 0 \<or> BackendSetID rule = 0 \<Longrightarrow>
     status (fst (updateRule fl p (Inr rule) ip db)) = 400 \<and> snd (updateRule fl p (Inr rule) ip db) = db"
  by (auto simp: updateRule_def Let_def split: option.splits)

lemma CreateRule_ok:
  assumes "fl StWrite = None" "fl StLog = None" "fl StCommit = None"
  shows "fst (CreateRule fl rule ip db) = Inr (fst (Create_Rule rule db))
         \<and> rules (snd (CreateRule fl rule ip db)) = rules (snd (Create_Rule rule db))"
  using assms
  by (simp add: CreateRule_def attempt_def logAndCommit_def logChange_def Commit_def Let_def split_def)

lemma UpdateRule_ok:
  assumes "fl StWrite = None" "fl StLog = None" "fl StCommit = None"
  shows "fst (UpdateRule fl rule ip db) = Inr (fst (Save_Rule rule db))
         \<and> rules (snd (UpdateRule fl rule ip db)) = rules (snd (Save_Rule rule db))"
  using assms
  by (simp add: UpdateRule_def attempt_def logAndCommit_def logChange_def Commit_def Let_def split_def)

lemma createRule_accepts:
  assumes "SourceDefinitionID rule \<noteq> 0" "BackendSetID rule \<noteq> 0"
    and "fl StWrite = None" "fl StLog = None" "fl StCommit = None"
  shows "fst (createRule fl (Inr rule) ip db)
           = \<lparr>status = 201, body = RuleJSON (fst (Create_Rule rule db))\<rparr>
         \<and> rules (snd (createRule fl (Inr rule) ip db)) = rules (snd (Create_Rule rule db))"
  using assms CreateRule_ok [of fl rule ip db]
  by (cases "CreateRule fl rule ip db") (simp add: createRule_def)

lemma updateRule_accepts:
  assumes "ParseUint32 p = Some i" "SourceDefinitionID rule \<noteq> 0" "BackendSetID rule \<noteq> 0"
    and "fl StWrite = None" "fl StLog = None" "fl StCommit = None"
  shows "fst (updateRule fl p (Inr rule) ip db)
           = \<lparr>status = 200, body = RuleJSON (fst (Save_Rule (rule\<lparr>ID := i\<rparr>) db))\<rparr>
         \<and> rules (snd (updateRule fl p (Inr rule) ip db))
             = rules (snd (Save_Rule (rule\<lparr>ID := i\<rparr>) db))"
  using assms UpdateRule_ok [of fl "rule\<lparr>ID := i\<rparr>" ip db]
  by (cases "UpdateRule fl (rule\<lparr>ID := i\<rparr>) ip db") (simp add: updateRule_def Let_def)

lemma Create_rows: "snd (Create tbl x) = tbl @ [fst (Create tbl x)]"
  by (simp add: Create_def Let_def)

lemma Upsert_mem: "fst (Upsert updateAll tbl x) \<in> set (snd (Upsert updateAll tbl x))"
proof (cases "ID x \<noteq> 0 \<and> list_ex (\<lambda>y. ID y = ID x) tbl")
  case True
  then obtain y where y: "y \<in> set tbl" "ID y = ID x"
    unfolding list_ex_iff by blast
  then have "x = (\<lambda>y. if ID y = ID x then updateAll y x else y) y"
    by (simp add: updateAll_def)
  with y(1) have "x \<in> (\<lambda>y. if ID y = ID x then updateAll y x else y) ` set tbl"
    by (rule image_eqI [rotated])
  moreover from True
  have "Upsert updateAll tbl x = (x, map (\<lambda>y. if ID y = ID x then updateAll y x else y) tbl)"
    by (simp add: Upsert_def)
  ultimately show ?thesis
    by (simp only: fst_conv snd_conv set_map)
next
  case False
  then have "Upsert updateAll tbl x = Create tbl x"
    by (auto simp: Upsert_def)
  then show ?thesis
    by (simp add: Create_def Let_def)
qed

lemma Save_mem: "fst (Save dflt tbl x) \<in> set (snd (Save dflt tbl x))"
proof -
  consider "ID x = 0" | "ID x \<noteq> 0" "list_ex (\<lambda>y. ID y = ID x \<and> \<not> DeletedAt y) tbl"
    | "ID x \<noteq> 0" "\<not> list_ex (\<lambda>y. ID y = ID x \<and> \<not> DeletedAt y) tbl"
    by blast
  then show ?thesis
  proof cases
    case 1
    then show ?thesis by (simp add: Save_def Create_def Let_def)
  next
    case 2
    then obtain y where y: "y \<in> set tbl" "ID y = ID x \<and> \<not> DeletedAt y"
      unfolding list_ex_iff by blast
    then have "x = (\<lambda>y. if ID y = ID x \<and> \<not> DeletedAt y then x else y) y"
      by simp
    with y(1) have "x \<in> (\<lambda>y. if ID y = ID x \<and> \<not> DeletedAt y then x else y) ` set tbl"
      by (rule image_eqI [rotated])
    moreover from 2
    have "Save dflt tbl x
            = (x, map (\<lambda>y. if ID y = ID x \<and> \<not> DeletedAt y then x else y) tbl)"
      by (simp add: Save_def)
    ultimately show ?thesis
      by (simp only: fst_conv snd_conv set_map)
  next
    case 3
    then show ?thesis
      using Upsert_mem [of tbl "dflt x"] by (simp add: Save_def)
  qed
qed

lemma Save_port:
  "DestinationPort (fst (Save (\<lambda>r. r\<lparr>Enabled := True\<rparr>) tbl rule)) = DestinationPort rule"
  by (simp add: Save_def Upsert_def Create_def Let_def)

lemma Save_Rule_stored:
  "fst (Save_Rule r db) \<in> set (rules (snd (Save_Rule r db)))"
  "DestinationPort (fst (Save_Rule r db)) = DestinationPort r"
  using Save_mem [of "\<lambda>r. r\<lparr>Enabled := True\<rparr>" "rules (snd (saveBelongsTo r db))"
          "fst (saveBelongsTo r db)"]
  by (simp_all add: Save_Rule_def split_def Let_def Save_port saveBelongsTo_ok)

lemma hi_byte: "unat (ucast (drop_bit 8 (w :: 16 word)) :: byte) = unat w div 256"
proof -
  have "unat w < 65536"
    using unsigned_less [of w, where 'a = nat] by simp
  then have lt: "unat w div 256 < 256"
    by simp
  have "unat (ucast (drop_bit 8 w) :: byte) = take_bit 8 (drop_bit 8 (unat w))"
    by (simp add: unsigned_ucast_eq unat_drop_bit_eq)
  also have "\<dots> = (unat w div 256) mod 256"
    by (simp add: take_bit_eq_mod drop_bit_eq_div)
  also from lt have "\<dots> = unat w div 256"
    by simp
  finally show ?thesis .
qed

lemma lo_byte: "unat (ucast (w :: 16 word) :: byte) = unat w mod 256"
  by (simp add: unsigned_ucast_eq take_bit_eq_mod)

lemma portOf_byteOrder: "portOf (byteOrder w) = unat w"
  unfolding portOf_def byteOrder_def by (simp only: list.case hi_byte) (simp add: lo_byte)

lemma uint16_of_int: "unat (word_of_int p :: 16 word) = nat (p mod 65536)"
  by (simp add: unat_eq_nat_uint uint_word_of_int take_bit_eq_mod)

lemma compiled_port:
  assumes "fst (generateExpressionsForRule rng k rule as) = Inr es"
  shows "es ! 2 = Payload 1 PayloadBaseTransportHeader 2 2
         \<and> es ! 3 = Cmp CmpOpEq 1 (byteOrder (word_of_int (DestinationPort rule)))"
  using assms
  by (auto simp: generateExpressionsForRule_def Let_def split: option.splits sum.splits if_splits)

text \<open>
  C9, as the code has it. \<^verbatim>\<open>POST /api/rules\<close> and \<^verbatim>\<open>PUT /api/rules/:id\<close> answer 400 and
  leave the database as it was when the source definition id or the backend set id of the
  rule is zero. The destination port is not looked at: with both ids set and a database that
  accepts the statements, the rule is stored with its port as given, whatever the port, and
  the answer is 201 or 200. The compiler compares the destination port (two bytes at offset
  2 of the transport header) with the low 16 bits of the rule's port, that is, with the
  port modulo 65536.
\<close>

theorem rule_port_is_not_checked:
  "(SourceDefinitionID rule = 0 \<or> BackendSetID rule = 0 \<longrightarrow>
      status (fst (createRule fl (Inr rule) ip db)) = 400
      \<and> snd (createRule fl (Inr rule) ip db) = db
      \<and> status (fst (updateRule fl p (Inr rule) ip db)) = 400
      \<and> snd (updateRule fl p (Inr rule) ip db) = db)
   \<and> (SourceDefinitionID rule \<noteq> 0 \<and> BackendSetID rule \<noteq> 0
      \<and> fl StWrite = None \<and> fl StLog = None \<and> fl StCommit = None \<longrightarrow>
      (\<exists>stored. fst (createRule fl (Inr rule) ip db) = \<lparr>status = 201, body = RuleJSON stored\<rparr>
         \<and> rules (snd (createRule fl (Inr rule) ip db)) = rules db @ [stored]
         \<and> DestinationPort stored = DestinationPort rule))
   \<and> (ParseUint32 p = Some i \<and> SourceDefinitionID rule \<noteq> 0 \<and> BackendSetID rule \<noteq> 0
      \<and> fl StWrite = None \<and> fl StLog = None \<and> fl StCommit = None \<longrightarrow>
      (\<exists>stored. fst (updateRule fl p (Inr rule) ip db) = \<lparr>status = 200, body = RuleJSON stored\<rparr>
         \<and> stored \<in> set (rules (snd (updateRule fl p (Inr rule) ip db)))
         \<and> DestinationPort stored = DestinationPort rule))
   \<and> (fst (generateExpressionsForRule rng k rule as) = Inr es \<longrightarrow>
      es ! 2 = Payload 1 PayloadBaseTransportHeader 2 2
      \<and> es ! 3 = Cmp CmpOpEq 1 (byteOrder (word_of_int (DestinationPort rule))))
   \<and> portOf (byteOrder (word_of_int (DestinationPort rule)))
       = nat (DestinationPort rule mod 65536)"
proof (intro conjI impI)
  assume "SourceDefinitionID rule = 0 \<or> BackendSetID rule = 0"
  then show "status (fst (createRule fl (Inr rule) ip db)) = 400"
    and "snd (createRule fl (Inr rule) ip db) = db"
    and "status (fst (updateRule fl p (Inr rule) ip db)) = 400"
    and "snd (updateRule fl p (Inr rule) ip db) = db"
    using createRule_rejects [of rule fl ip db] updateRule_rejects [of rule fl p ip db]
    by simp_all
next
  assume "SourceDefinitionID rule \<noteq> 0 \<and> BackendSetID rule \<noteq> 0
      \<and> fl StWrite = None \<and> fl StLog = None \<and> fl StCommit = None"
  then have "fst (createRule fl (Inr rule) ip db)
           = \<lparr>status = 201, body = RuleJSON (fst (Create_Rule rule db))\<rparr>
         \<and> rules (snd (createRule fl (Inr rule) ip db)) = rules (snd (Create_Rule rule db))"
    by (intro createRule_accepts) simp_all
  then show "\<exists>stored. fst (createRule fl (Inr rule) ip db) = \<lparr>status = 201, body = RuleJSON stored\<rparr>
         \<and> rules (snd (createRule fl (Inr rule) ip db)) = rules db @ [stored]
         \<and> DestinationPort stored = DestinationPort rule"
    using Create_Rule_ok [of rule db] by auto
next
  assume "ParseUint32 p = Some i \<and> SourceDefinitionID rule \<noteq> 0 \<and> BackendSetID rule \<noteq> 0
      \<and> fl StWrite = None \<and> fl StLog = None \<and> fl StCommit = None"
  then have "fst (updateRule fl p (Inr rule) ip db)
           = \<lparr>status = 200, body = RuleJSON (fst (Save_Rule (rule\<lparr>ID := i\<rparr>) db))\<rparr>
         \<and> rules (snd (updateRule fl p (Inr rule) ip db))
             = rules (snd (Save_Rule (rule\<lparr>ID := i\<rparr>) db))"
    by (intro updateRule_accepts) simp_all
  then show "\<exists>stored. fst (updateRule fl p (Inr rule) ip db) = \<lparr>status = 200, body = RuleJSON stored\<rparr>
         \<and> stored \<in> set (rules (snd (updateRule fl p (Inr rule) ip db)))
         \<and> DestinationPort stored = DestinationPort rule"
    using Save_Rule_stored [of "rule\<lparr>ID := i\<rparr>" db] by auto
next
  assume "fst (generateExpressionsForRule rng k rule as) = Inr es"
  then show "es ! 2 = Payload 1 PayloadBaseTransportHeader 2 2"
    and "es ! 3 = Cmp CmpOpEq 1 (byteOrder (word_of_int (DestinationPort rule)))"
    using compiled_port by simp_all
next
  show "portOf (byteOrder (word_of_int (DestinationPort rule))) = nat (DestinationPort rule mod 65536)"
    by (simp only: portOf_byteOrder uint16_of_int)
qed


lemma noFault_writes: "noFault StWrite = None" "noFault StLog = None" "noFault StCommit = None"
  by (simp_all add: noFault_def)

lemma exBelongsTo:
  "saveBelongsTo (exRule\<lparr>ID := 0, DestinationPort := 0\<rparr>) exDB
     = (exRule\<lparr>ID := 0, DestinationPort := 0\<rparr>, exDB)"
  by (simp add: saveBelongsTo_def Upsert_def doNothing_def updateBackendID_def insertJoins_def
        zeroSourceDefinition_def zeroBackendSet_def exDB_def exRule_def exSource_def exSet_def
        exBackend_def exAddress_def Let_def)

lemma exCreate:
  "fst (Create_Rule (exRule\<lparr>ID := 0, DestinationPort := 0\<rparr>) exDB)
     = exRule\<lparr>ID := 3, DestinationPort := 0\<rparr>"
  "rules (snd (Create_Rule (exRule\<lparr>ID := 0, DestinationPort := 0\<rparr>) exDB))
     = rules exDB @ [exRule\<lparr>ID := 3, DestinationPort := 0\<rparr>]"
  unfolding Create_Rule_def exBelongsTo
  by (simp_all add: Create_def Let_def nextID_def exDB_def exRule_def numeral_3_eq_3)

lemma exCompiled:
  "fst (generateExpressionsForRule (\<lambda>n. 0) 0 (exRule\<lparr>ID := 3, DestinationPort := 0\<rparr>)
          [exAddress])
     = Inr [Meta MetaKeyL4PROTO 1, Cmp CmpOpEq 1 [6],
            Payload 1 PayloadBaseTransportHeader 2 2, Cmp CmpOpEq 1 [0, 0],
            Payload 1 PayloadBaseNetworkHeader 12 4, Cmp CmpOpEq 1 [10, 1, 0, 1],
            Immediate 1 [10, 0, 0, 10], Immediate 2 [0, 80], NAT NATTypeDestNAT 2 1 2]"
  unfolding exRule_def exAddress_def exSource_def by code_simp

text \<open>
  C9, as the claim has it, fails: a rule with destination port 0 is accepted with status
  201 and stored, and the kernel rule compiled from it compares the destination port with
  0.
\<close>

theorem rule_port_is_not_checked_counterexample:
  "status (fst (createRule noFault (Inr (exRule\<lparr>ID := 0, DestinationPort := 0\<rparr>))
                  ''10.9.9.9'' exDB)) = 201
   \<and> rules (snd (createRule noFault (Inr (exRule\<lparr>ID := 0, DestinationPort := 0\<rparr>))
                  ''10.9.9.9'' exDB))
       = rules exDB @ [exRule\<lparr>ID := 3, DestinationPort := 0\<rparr>]
   \<and> fst (generateExpressionsForRule (\<lambda>n. 0) 0 (exRule\<lparr>ID := 3, DestinationPort := 0\<rparr>)
            [exAddress])
       = Inr [Meta MetaKeyL4PROTO 1, Cmp CmpOpEq 1 [6],
              Payload 1 PayloadBaseTransportHeader 2 2, Cmp CmpOpEq 1 [0, 0],
              Payload 1 PayloadBaseNetworkHeader 12 4, Cmp CmpOpEq 1 [10, 1, 0, 1],
              Immediate 1 [10, 0, 0, 10], Immediate 2 [0, 80], NAT NATTypeDestNAT 2 1 2]"
proof -
  have s: "SourceDefinitionID (exRule\<lparr>ID := 0, DestinationPort := 0\<rparr>) \<noteq> 0"
    and b: "BackendSetID (exRule\<lparr>ID := 0, DestinationPort := 0\<rparr>) \<noteq> 0"
    by (simp_all add: exRule_def)
  from createRule_accepts [OF s b noFault_writes, of "''10.9.9.9''" exDB] exCompiled
  show ?thesis
    unfolding exCreate by simp
qed

theorem rule_port_is_not_checked_witness:
  "status (fst (createRule noFault (Inr (exRule\<lparr>ID := 0, BackendSetID := 0\<rparr>))
                  ''10.9.9.9'' exDB)) = 400
   \<and> snd (createRule noFault (Inr (exRule\<lparr>ID := 0, BackendSetID := 0\<rparr>)) ''10.9.9.9'' exDB)
       = exDB
   \<and> (\<exists>stored. fst (createRule noFault (Inr (exRule\<lparr>ID := 0, DestinationPort := 70000\<rparr>))
                        ''10.9.9.9'' exDB) = \<lparr>status = 201, body = RuleJSON stored\<rparr>
         \<and> rules (snd (createRule noFault (Inr (exRule\<lparr>ID := 0, DestinationPort := 70000\<rparr>))
                        ''10.9.9.9'' exDB)) = rules exDB @ [stored]
         \<and> DestinationPort stored = 70000)
   \<and> portOf (byteOrder (word_of_int 70000)) = 4464"
proof -
  let ?bad = "exRule\<lparr>ID := 0, BackendSetID := 0\<rparr>"
  let ?big = "exRule\<lparr>ID := 0, DestinationPort := 70000\<rparr>"
  have z: "SourceDefinitionID ?bad = 0 \<or> BackendSetID ?bad = 0"
    by simp
  have s: "SourceDefinitionID ?big \<noteq> 0 \<and> BackendSetID ?big \<noteq> 0
           \<and> noFault StWrite = None \<and> noFault StLog = None \<and> noFault StCommit = None"
    by (simp add: exRule_def noFault_def)
  have p: "DestinationPort ?big = 70000"
    by simp
  from rule_port_is_not_checked
         [of ?bad noFault "''10.9.9.9''" exDB "''1''" 1 "\<lambda>n. 0" 0 "[exAddress]" "[]"] z
  have 1: "status (fst (createRule noFault (Inr ?bad) ''10.9.9.9'' exDB)) = 400
           \<and> snd (createRule noFault (Inr ?bad) ''10.9.9.9'' exDB) = exDB"
    by blast
  note big = rule_port_is_not_checked
         [of ?big noFault "''10.9.9.9''" exDB "''1''" 1 "\<lambda>n. 0" 0 "[exAddress]" "[]"]
  from big s
  have 2: "\<exists>stored. fst (createRule noFault (Inr ?big) ''10.9.9.9'' exDB)
                       = \<lparr>status = 201, body = RuleJSON stored\<rparr>
             \<and> rules (snd (createRule noFault (Inr ?big) ''10.9.9.9'' exDB)) = rules exDB @ [stored]
             \<and> DestinationPort stored = DestinationPort ?big"
    by blast
  from big
  have 3: "portOf (byteOrder (word_of_int (DestinationPort ?big)))
             = nat (DestinationPort ?big mod 65536)"
    by blast
  from 1 2 3 show ?thesis
    unfolding p by simp
qed

lemma nextID_pos: "0 < nextID tbl"
  by (simp add: nextID_def)

lemma Save_keeps:
  assumes f: "First tbl i = Some old" and d: "distinct (map ID tbl)"
    and x: "ID x = i" and b: "BackendID x = BackendID old"
  shows "(\<exists>a \<in> set (snd (Save dflt tbl x)). ID a = i)
         \<and> (\<forall>a \<in> set (snd (Save dflt tbl x)). ID a = i \<longrightarrow> BackendID a = BackendID old)"
proof (cases "i = 0")
  case True
  from f have m: "old \<in> set tbl" and o: "ID old = i"
    by (rule First_Some_mem, rule First_Some_ID)
  from d have inj: "inj_on ID (set tbl)"
    by (simp add: distinct_map)
  let ?n = "fst (Create tbl (dflt x))"
  have s: "snd (Save dflt tbl x) = tbl @ [?n]"
    using True x by (simp add: Save_def Create_rows)
  have n: "ID ?n \<noteq> 0"
    using nextID_pos [of tbl] by (simp add: Create_def Let_def)
  have "\<exists>a \<in> set (tbl @ [?n]). ID a = i"
    using m o by (intro bexI [of _ old]) simp_all
  moreover have "BackendID a = BackendID old"
    if "a \<in> set (tbl @ [?n])" and "ID a = i" for a
  proof -
    from that True n have "a \<in> set tbl"
      by (cases "a = ?n") simp_all
    with inj m o that(2) have "a = old"
      by (simp add: inj_on_def)
    then show ?thesis
      by simp
  qed
  ultimately show ?thesis
    unfolding s by blast
next
  case False
  from f have m: "old \<in> set tbl" and o: "ID old = i" and l: "\<not> DeletedAt old"
    by (rule First_Some_mem, rule First_Some_ID, rule First_Some_live)
  from d have inj: "inj_on ID (set tbl)"
    by (simp add: distinct_map)
  let ?g = "\<lambda>y. if ID y = ID x \<and> \<not> DeletedAt y then x else y"
  from m o l x have "list_ex (\<lambda>y. ID y = ID x \<and> \<not> DeletedAt y) tbl"
    unfolding list_ex_iff by (intro bexI [of _ old]) simp_all
  with False x have s: "snd (Save dflt tbl x) = map ?g tbl"
    by (simp add: Save_def)
  from m o l x have "x = ?g old"
    by simp
  with m have "x \<in> ?g ` set tbl"
    by (rule image_eqI [rotated])
  then have "x \<in> set (map ?g tbl)"
    unfolding set_map .
  then have "\<exists>a \<in> set (map ?g tbl). ID a = i"
    using x by (intro bexI [of _ x])
  moreover have "BackendID a = BackendID old"
    if "a \<in> set (map ?g tbl)" and "ID a = i" for a
  proof -
    from that(1) have "a \<in> ?g ` set tbl"
      unfolding set_map .
    then obtain y where y: "y \<in> set tbl" "a = ?g y"
      by (rule imageE)
    show ?thesis
    proof (cases "ID y = ID x \<and> \<not> DeletedAt y")
      case True
      with y b show ?thesis by simp
    next
      case False
      with y that(2) have "a = y" "ID y = i"
        by simp_all
      with inj m o y(1) have "a = old"
        by (simp add: inj_on_def)
      then show ?thesis
        by simp
    qed
  qed
  ultimately show ?thesis
    unfolding s by blast
qed

lemma UpdateAddress_ok:
  assumes "fst (UpdateAddress fl x who db) = Inr r"
  shows "addresses (snd (UpdateAddress fl x who db))
           = snd (Save (\<lambda>a. a\<lparr>Address.Available := True\<rparr>) (addresses db) x)"
proof -
  from assms have w: "fl StWrite = None"
    by (cases "fl StWrite") (simp_all add: UpdateAddress_def attempt_def)
  from assms w have l: "fl StLog = None"
    by (cases "fl StLog")
       (simp_all add: UpdateAddress_def attempt_def logAndCommit_def logChange_def Let_def
          split_def)
  from assms w l have c: "fl StCommit = None"
    by (cases "fl StCommit")
       (simp_all add: UpdateAddress_def attempt_def logAndCommit_def logChange_def Commit_def
          Let_def split_def)
  from w l c show ?thesis
    by (simp add: UpdateAddress_def attempt_def logAndCommit_def logChange_def Commit_def
          Let_def split_def)
qed

lemma updateAddress_ok:
  assumes "status (fst (updateAddress fl p bound ip db)) = 200"
  shows "\<exists>i old a0. ParseUint32 p = Some i \<and> First (addresses db) i = Some old \<and> bound = Inr a0
           \<and> addresses (snd (updateAddress fl p bound ip db))
               = snd (Save (\<lambda>a. a\<lparr>Address.Available := True\<rparr>) (addresses db)
                       (a0\<lparr>ID := i, BackendID := BackendID old\<rparr>))"
proof -
  from assms obtain i where i: "ParseUint32 p = Some i"
    by (cases "ParseUint32 p") (simp_all add: updateAddress_def)
  from assms i obtain old where g: "GetAddress fl i db = Inr old"
    by (cases "GetAddress fl i db") (simp_all add: updateAddress_def)
  then have f: "First (addresses db) i = Some old"
    by (simp add: GetAddress_def split: option.splits)
  from assms i g obtain a0 where a: "bound = Inr a0"
    by (cases bound) (simp_all add: updateAddress_def)
  let ?x = "a0\<lparr>ID := i, BackendID := BackendID old\<rparr>"
  from assms i g a have ip: "ParseIP (IP ?x) \<noteq> []"
    by (auto simp: updateAddress_def Let_def split: if_splits)
  obtain res db' where u: "UpdateAddress fl ?x ip db = (res, db')"
    by (cases "UpdateAddress fl ?x ip db")
  from assms i g a ip u obtain r where r: "res = Inr r"
    by (cases res) (simp_all add: updateAddress_def Let_def)
  from u r have "addresses db'
                   = snd (Save (\<lambda>a. a\<lparr>Address.Available := True\<rparr>) (addresses db) ?x)"
    using UpdateAddress_ok [of fl ?x ip db r] by simp
  moreover from i g a ip u r have "snd (updateAddress fl p bound ip db) = db'"
    by (simp add: updateAddress_def Let_def)
  ultimately show ?thesis
    using i f a by simp
qed

text \<open>
  C10. When \<^verbatim>\<open>PUT /api/addresses/:id\<close> answers 200 (ids being the primary key of the table),
  there was an address with that id, there is one after the request, and every row with
  that id has the backend id that address had: the backend id of the request body is not
  used.
\<close>

theorem updateAddress_keeps_BackendID:
  assumes "status (fst (updateAddress fl p bound ip db)) = 200"
    and "distinct (map ID (addresses db))"
  shows "\<exists>i old. ParseUint32 p = Some i \<and> First (addresses db) i = Some old
           \<and> (\<exists>a \<in> set (addresses (snd (updateAddress fl p bound ip db))). ID a = i)
           \<and> (\<forall>a \<in> set (addresses (snd (updateAddress fl p bound ip db))).
                 ID a = i \<longrightarrow> BackendID a = BackendID old)"
proof -
  from updateAddress_ok [OF assms(1)] obtain i old a0
    where i: "ParseUint32 p = Some i" and f: "First (addresses db) i = Some old"
      and s: "addresses (snd (updateAddress fl p bound ip db))
               = snd (Save (\<lambda>a. a\<lparr>Address.Available := True\<rparr>) (addresses db)
                       (a0\<lparr>ID := i, BackendID := BackendID old\<rparr>))"
    by blast
  from Save_keeps [OF f assms(2), of "a0\<lparr>ID := i, BackendID := BackendID old\<rparr>"
         "\<lambda>a. a\<lparr>Address.Available := True\<rparr>"]
  have "(\<exists>a \<in> set (addresses (snd (updateAddress fl p bound ip db))). ID a = i)
         \<and> (\<forall>a \<in> set (addresses (snd (updateAddress fl p bound ip db))).
                 ID a = i \<longrightarrow> BackendID a = BackendID old)"
    unfolding s by simp
  with i f show ?thesis
    by blast
qed

lemma ParseIP_ex: "ParseIP ''10.0.0.11'' \<noteq> []"
  by code_simp

lemma exUpdate_status:
  "status (fst (updateAddress noFault ''1''
      (Inr (exAddress\<lparr>ID := 77, BackendID := 5, IP := ''10.0.0.11''\<rparr>)) ''10.9.9.9'' exDB)) = 200"
  using ParseIP_ex
  by (simp add: updateAddress_def ParseUint32_1 GetAddress_def noFault_def First_def exDB_def
        exAddress_def UpdateAddress_def attempt_def logAndCommit_def logChange_def Commit_def
        Save_def Let_def split_def)


theorem updateAddress_keeps_BackendID_witness:
  "list_ex (\<lambda>a. ID a = 1)
     (addresses (snd (updateAddress noFault ''1''
        (Inr (exAddress\<lparr>ID := 77, BackendID := 5, IP := ''10.0.0.11''\<rparr>)) ''10.9.9.9'' exDB)))
   \<and> list_all (\<lambda>a. ID a = 1 \<longrightarrow> BackendID a = 1)
     (addresses (snd (updateAddress noFault ''1''
        (Inr (exAddress\<lparr>ID := 77, BackendID := 5, IP := ''10.0.0.11''\<rparr>)) ''10.9.9.9'' exDB)))"
proof -
  have d: "distinct (map ID (addresses exDB))"
    by (simp add: exDB_def)
  from updateAddress_keeps_BackendID [OF exUpdate_status d] obtain i old
    where i: "ParseUint32 ''1'' = Some i" and f: "First (addresses exDB) i = Some old"
      and r: "(\<exists>a \<in> set (addresses (snd (updateAddress noFault ''1''
                 (Inr (exAddress\<lparr>ID := 77, BackendID := 5, IP := ''10.0.0.11''\<rparr>))
                 ''10.9.9.9'' exDB))). ID a = i)
              \<and> (\<forall>a \<in> set (addresses (snd (updateAddress noFault ''1''
                 (Inr (exAddress\<lparr>ID := 77, BackendID := 5, IP := ''10.0.0.11''\<rparr>))
                 ''10.9.9.9'' exDB))). ID a = i \<longrightarrow> BackendID a = BackendID old)"
    by blast
  from i have i1: "i = 1"
    by (simp add: ParseUint32_1)
  from f have "old = exAddress"
    unfolding i1 by (simp add: First_def exDB_def exAddress_def)
  then have "BackendID old = 1"
    by (simp add: exAddress_def)
  with r show ?thesis
    unfolding i1 list_all_iff list_ex_iff by simp
qed

section \<open>Further properties of the store and the compiler\<close>

lemma DeleteBackend_ok:
  assumes "fst (DeleteBackend fl i who db) = Inr u"
  shows "\<exists>backend. First (backends db) i = Some backend
           \<and> backend_set_backends (snd (DeleteBackend fl i who db))
               = filter (\<lambda>(s, b). b \<noteq> i) (backend_set_backends db)
           \<and> addresses (snd (DeleteBackend fl i who db))
               = Delete (\<lambda>a. BackendID a = i) (addresses db)
           \<and> backends (snd (DeleteBackend fl i who db))
               = Delete (\<lambda>b. ID b = ID backend) (backends db)"
proof -
  from assms have f: "fl StFirst = None"
    by (cases "fl StFirst") (simp_all add: DeleteBackend_def attempt_def)
  from assms f obtain backend where b: "First (backends db) i = Some backend"
    by (cases "First (backends db) i") (simp_all add: DeleteBackend_def attempt_def)
  from assms f b have a: "fl StAssoc = None"
    by (cases "fl StAssoc") (simp_all add: DeleteBackend_def attempt_def)
  from assms f b a have c: "fl StChildren = None"
    by (cases "fl StChildren") (simp_all add: DeleteBackend_def attempt_def Let_def)
  from assms f b a c have w: "fl StWrite = None"
    by (cases "fl StWrite") (simp_all add: DeleteBackend_def attempt_def Let_def)
  from assms f b a c w have l: "fl StLog = None"
    by (cases "fl StLog")
       (simp_all add: DeleteBackend_def attempt_def Let_def logAndCommit_def logChange_def)
  from assms f b a c w l have m: "fl StCommit = None"
    by (cases "fl StCommit")
       (simp_all add: DeleteBackend_def attempt_def Let_def logAndCommit_def logChange_def
          Commit_def)
  from f b a c w l m show ?thesis
    by (simp add: DeleteBackend_def attempt_def Let_def logAndCommit_def logChange_def
          Commit_def)
qed

lemma Delete_marks:
  assumes "x \<in> set (Delete P tbl)" and "P x"
  shows "DeletedAt x"
proof -
  from assms(1) have "x \<in> (\<lambda>y. if P y \<and> \<not> DeletedAt y then y\<lparr>DeletedAt := True\<rparr> else y) ` set tbl"
    unfolding Delete_def set_map .
  then obtain y where y: "x = (if P y \<and> \<not> DeletedAt y then y\<lparr>DeletedAt := True\<rparr> else y)"
    by (rule imageE)
  show ?thesis
  proof (cases "P y \<and> \<not> DeletedAt y")
    case True
    with y show ?thesis by simp
  next
    case False
    with y assms(2) show ?thesis by simp
  qed
qed

text \<open>
  X1. Deleting a backend takes its addresses and its memberships along: after a
  \<^verbatim>\<open>DeleteBackend\<close> that succeeds, no backend with that id is left that is not soft-deleted,
  every address of the backend is soft-deleted, and no row of the join table names the
  backend. (The change log gets the one row of the backend, and none for the addresses.)
\<close>

theorem DeleteBackend_cascades:
  assumes "fst (DeleteBackend fl i who db) = Inr u"
  shows "First (backends (snd (DeleteBackend fl i who db))) i = None
         \<and> (\<forall>a \<in> set (addresses (snd (DeleteBackend fl i who db))).
               BackendID a = i \<longrightarrow> DeletedAt a)
         \<and> (\<forall>j \<in> set (backend_set_backends (snd (DeleteBackend fl i who db))). snd j \<noteq> i)"
proof -
  from DeleteBackend_ok [OF assms] obtain backend
    where b: "First (backends db) i = Some backend"
      and s: "backend_set_backends (snd (DeleteBackend fl i who db))
               = filter (\<lambda>(s, b). b \<noteq> i) (backend_set_backends db)"
        "addresses (snd (DeleteBackend fl i who db))
               = Delete (\<lambda>a. BackendID a = i) (addresses db)"
        "backends (snd (DeleteBackend fl i who db))
               = Delete (\<lambda>b. ID b = ID backend) (backends db)"
    by blast
  from b have "ID backend = i"
    by (rule First_Some_ID)
  then have "First (Delete (\<lambda>b. ID b = ID backend) (backends db)) i = None"
    by (simp add: Delete_First)
  moreover have "\<forall>a \<in> set (Delete (\<lambda>a. BackendID a = i) (addresses db)).
                   BackendID a = i \<longrightarrow> DeletedAt a"
    using Delete_marks by blast
  moreover have "\<forall>j \<in> set (filter (\<lambda>(s, b). b \<noteq> i) (backend_set_backends db)). snd j \<noteq> i"
    by auto
  ultimately show ?thesis
    unfolding s by simp
qed

lemma exDeleteBackend: "fst (DeleteBackend noFault 1 ''10.9.9.9'' exDB) = Inr ()"
  by (simp add: DeleteBackend_def attempt_def noFault_def exDB_def exBackend_def First_def
        logAndCommit_def logChange_def Commit_def Let_def)

theorem DeleteBackend_cascades_witness:
  "First (backends (snd (DeleteBackend noFault 1 ''10.9.9.9'' exDB))) 1 = None
   \<and> list_all (\<lambda>a. BackendID a = 1 \<longrightarrow> DeletedAt a)
        (addresses (snd (DeleteBackend noFault 1 ''10.9.9.9'' exDB)))
   \<and> list_all (\<lambda>j. snd j \<noteq> 1)
        (backend_set_backends (snd (DeleteBackend noFault 1 ''10.9.9.9'' exDB)))"
  unfolding list_all_iff by (rule DeleteBackend_cascades [OF exDeleteBackend])

text \<open>
  X2. The backend of a compiled rule is one of the available addresses it was given: when
  \<^verbatim>\<open>generateExpressionsForRule\<close> returns expressions, some address of the list is an IPv4
  address, its four bytes are loaded into register 1 and its port, in network order, into
  register 2, and the last expression is the destination NAT.
\<close>

theorem backend_is_selected_from_available:
  assumes "fst (generateExpressionsForRule rng k rule as) = Inr es"
  shows "\<exists>a \<in> set as. To4 (ParseIP (IP a)) \<noteq> []
           \<and> Immediate 1 (To4 (ParseIP (IP a))) \<in> set es
           \<and> Immediate 2 (byteOrder (word_of_int (Port a))) \<in> set es
           \<and> last es = NAT NATTypeDestNAT 2 1 2"
proof -
  from assms have n: "as \<noteq> []"
    by (auto simp: generateExpressionsForRule_def Let_def split: option.splits sum.splits)
  let ?a = "as ! (rng k mod length as)"
  from n have m: "?a \<in> set as"
    by simp
  from assms n have "To4 (ParseIP (IP ?a)) \<noteq> []
           \<and> Immediate 1 (To4 (ParseIP (IP ?a))) \<in> set es
           \<and> Immediate 2 (byteOrder (word_of_int (Port ?a))) \<in> set es
           \<and> last es = NAT NATTypeDestNAT 2 1 2"
    by (auto simp: generateExpressionsForRule_def Let_def split: option.splits sum.splits if_splits)
  with m show ?thesis
    by blast
qed

lemma exCompiles:
  "fst (generateExpressionsForRule (\<lambda>n. 0) 0 exRule [exAddress])
     = Inr [Meta MetaKeyL4PROTO 1, Cmp CmpOpEq 1 [6],
            Payload 1 PayloadBaseTransportHeader 2 2, Cmp CmpOpEq 1 [0, 80],
            Payload 1 PayloadBaseNetworkHeader 12 4, Cmp CmpOpEq 1 [10, 1, 0, 1],
            Immediate 1 [10, 0, 0, 10], Immediate 2 [0, 80], NAT NATTypeDestNAT 2 1 2]"
  unfolding exRule_def exAddress_def exSource_def by code_simp

theorem backend_is_selected_from_available_witness:
  "\<exists>a \<in> set [exAddress]. To4 (ParseIP (IP a)) \<noteq> []
     \<and> Immediate 1 (To4 (ParseIP (IP a)))
         \<in> set [Meta MetaKeyL4PROTO 1, Cmp CmpOpEq 1 [6],
                 Payload 1 PayloadBaseTransportHeader 2 2, Cmp CmpOpEq 1 [0, 80],
                 Payload 1 PayloadBaseNetworkHeader 12 4, Cmp CmpOpEq 1 [10, 1, 0, 1],
                 Immediate 1 [10, 0, 0, 10], Immediate 2 [0, 80], NAT NATTypeDestNAT 2 1 2]
     \<and> Immediate 2 (byteOrder (word_of_int (Port a)))
         \<in> set [Meta MetaKeyL4PROTO 1, Cmp CmpOpEq 1 [6],
                 Payload 1 PayloadBaseTransportHeader 2 2, Cmp CmpOpEq 1 [0, 80],
                 Payload 1 PayloadBaseNetworkHeader 12 4, Cmp CmpOpEq 1 [10, 1, 0, 1],
                 Immediate 1 [10, 0, 0, 10], Immediate 2 [0, 80], NAT NATTypeDestNAT 2 1 2]
     \<and> last [Meta MetaKeyL4PROTO 1, Cmp CmpOpEq 1 [6],
              Payload 1 PayloadBaseTransportHeader 2 2, Cmp CmpOpEq 1 [0, 80],
              Payload 1 PayloadBaseNetworkHeader 12 4, Cmp CmpOpEq 1 [10, 1, 0, 1],
              Immediate 1 [10, 0, 0, 10], Immediate 2 [0, 80], NAT NATTypeDestNAT 2 1 2]
         = NAT NATTypeDestNAT 2 1 2"
  by (rule backend_is_selected_from_available [OF exCompiles])

lemma dtoi_32: "dtoi ''32'' = Some (32, 2)"
  by (simp add: dtoi_def isDigit_def digitVal_def)

lemma ParseAddr_net6:
  "ParseAddr ''2001:db8::'' = Some (Addr6 [32, 1, 13, 184, 0, 0, 0, 0, 0, 0, 0, 0, 0, 0, 0, 0])"
  by code_simp

lemma ParseCIDR_net6:
  "ParseCIDR ''2001:db8::/32''
     = Some ([32, 1, 13, 184, 0, 0, 0, 0, 0, 0, 0, 0, 0, 0, 0, 0],
             \<lparr>IPNet_IP = [32, 1, 13, 184, 0, 0, 0, 0, 0, 0, 0, 0, 0, 0, 0, 0],
              IPNet_Mask = [255, 255, 255, 255, 0, 0, 0, 0, 0, 0, 0, 0, 0, 0, 0, 0]\<rparr>)"
proof -
  have "CIDRMask 32 128 = [255, 255, 255, 255, 0, 0, 0, 0, 0, 0, 0, 0, 0, 0, 0, 0]"
    by code_simp
  moreover have "IP_Mask [32, 1, 13, 184, 0, 0, 0, 0, 0, 0, 0, 0, 0, 0, 0, 0]
          [255, 255, 255, 255, 0, 0, 0, 0, 0, 0, 0, 0, 0, 0, 0, 0]
        = [32, 1, 13, 184, 0, 0, 0, 0, 0, 0, 0, 0, 0, 0, 0, 0]"
    by code_simp
  ultimately show ?thesis
    by (simp add: ParseCIDR_def ParseAddr_net6 dtoi_32 Let_def)
qed

text \<open>
  X3. A subnet in IPv6 notation passes \<^verbatim>\<open>Validate\<close> and is compiled without an error, into
  a comparison that has no data: the \<^verbatim>\<open>subnet\<close> case of the compiler takes \<^verbatim>\<open>To4\<close> of the
  network and, other than the \<^verbatim>\<open>ip\<close> and \<^verbatim>\<open>range\<close> cases, does not test the result for
  \<^verbatim>\<open>nil\<close>. For \<^verbatim>\<open>2001:db8::/32\<close> the mask is that of a 32-bit prefix and the data of the
  comparison is empty; the expressions are no source match.
\<close>

theorem subnet_ipv6_is_compiled:
  "Validate (exSource\<lparr>Type := ''subnet'', Subnet := ''2001:db8::/32''\<rparr>)
   \<and> sourceExpressions (exSource\<lparr>Type := ''subnet'', Subnet := ''2001:db8::/32''\<rparr>)
       = Inr [Payload 1 PayloadBaseNetworkHeader 12 4,
              Bitwise 1 1 4 [255, 255, 255, 255] [0, 0, 0, 0], Cmp CmpOpEq 1 []]
   \<and> \<not> lowers (exSource\<lparr>Type := ''subnet'', Subnet := ''2001:db8::/32''\<rparr>)"
proof -
  have "fst (Size [255, 255, 255, 255, 0, 0, 0, 0, 0, 0, 0, 0, 0, 0, 0, 0]) = 32"
    by code_simp
  moreover have "CIDRMask 32 32 = [255, 255, 255, 255]"
    by code_simp
  moreover have "To4 [32, 1, 13, 184, 0, 0, 0, 0, 0, 0, 0, 0, 0, 0, 0, 0] = []"
    by code_simp
  ultimately have "sourceExpressions (exSource\<lparr>Type := ''subnet'', Subnet := ''2001:db8::/32''\<rparr>)
       = Inr [Payload 1 PayloadBaseNetworkHeader 12 4,
              Bitwise 1 1 4 [255, 255, 255, 255] [0, 0, 0, 0], Cmp CmpOpEq 1 []]"
    by (simp add: sourceExpressions_def ParseCIDR_net6 exSource_def)
  then show ?thesis
    by (simp add: lowers_def sourceMatch_def Validate_def ParseCIDR_net6)
qed

end
